theory Spec2Isabelle
  imports Complex_Main "HOL-Library.Multiset"
begin

section \<open>JavaScript numbers\<close>

text \<open>
  A JavaScript number is modelled as an exact real, or one of the three special values
  of IEEE 754. Arithmetic on finite values is exact (rounding, overflow of finite
  results and the sign of zero are not modelled); the special values follow the
  IEEE rules that JavaScript uses. A read of \<^verbatim>\<open>undefined\<close> that is used as a number
  behaves as \<open>NaN\<close>.
\<close>

datatype number = Fin real | PInf | NInf | NaN

instantiation number :: "{zero, one, plus, minus, uminus, times, inverse, ord}"
begin

definition zero_number :: number where
  "zero_number = Fin 0"

definition one_number :: number where
  "one_number = Fin 1"

fun uminus_number :: "number \<Rightarrow> number" where
  "uminus_number (Fin a) = Fin (- a)"
| "uminus_number PInf = NInf"
| "uminus_number NInf = PInf"
| "uminus_number NaN = NaN"

fun plus_number :: "number \<Rightarrow> number \<Rightarrow> number" where
  "plus_number (Fin a) (Fin b) = Fin (a + b)"
| "plus_number NaN _ = NaN"
| "plus_number _ NaN = NaN"
| "plus_number PInf NInf = NaN"
| "plus_number NInf PInf = NaN"
| "plus_number PInf _ = PInf"
| "plus_number _ PInf = PInf"
| "plus_number NInf _ = NInf"
| "plus_number _ NInf = NInf"

definition minus_number :: "number \<Rightarrow> number \<Rightarrow> number" where
  "minus_number a b = a + (- b)"

fun times_number :: "number \<Rightarrow> number \<Rightarrow> number" where
  "times_number (Fin a) (Fin b) = Fin (a * b)"
| "times_number NaN _ = NaN"
| "times_number _ NaN = NaN"
| "times_number PInf (Fin b) = (if b = 0 then NaN else if 0 < b then PInf else NInf)"
| "times_number NInf (Fin b) = (if b = 0 then NaN else if 0 < b then NInf else PInf)"
| "times_number (Fin a) PInf = (if a = 0 then NaN else if 0 < a then PInf else NInf)"
| "times_number (Fin a) NInf = (if a = 0 then NaN else if 0 < a then NInf else PInf)"
| "times_number PInf PInf = PInf"
| "times_number NInf NInf = PInf"
| "times_number PInf NInf = NInf"
| "times_number NInf PInf = NInf"

fun divide_number :: "number \<Rightarrow> number \<Rightarrow> number" where
  "divide_number (Fin a) (Fin b) =
     (if b \<noteq> 0 then Fin (a / b)
      else if a = 0 then NaN else if 0 < a then PInf else NInf)"
| "divide_number NaN _ = NaN"
| "divide_number _ NaN = NaN"
| "divide_number (Fin a) PInf = Fin 0"
| "divide_number (Fin a) NInf = Fin 0"
| "divide_number PInf (Fin b) = (if 0 \<le> b then PInf else NInf)"
| "divide_number NInf (Fin b) = (if 0 \<le> b then NInf else PInf)"
| "divide_number _ _ = NaN"

definition inverse_number :: "number \<Rightarrow> number" where
  "inverse_number a = Fin 1 div a"

fun less_number :: "number \<Rightarrow> number \<Rightarrow> bool" where
  "less_number (Fin a) (Fin b) = (a < b)"
| "less_number NaN _ = False"
| "less_number _ NaN = False"
| "less_number _ NInf = False"
| "less_number PInf _ = False"
| "less_number NInf _ = True"
| "less_number _ PInf = True"

fun less_eq_number :: "number \<Rightarrow> number \<Rightarrow> bool" where
  "less_eq_number (Fin a) (Fin b) = (a \<le> b)"
| "less_eq_number NaN _ = False"
| "less_eq_number _ NaN = False"
| "less_eq_number NInf _ = True"
| "less_eq_number _ PInf = True"
| "less_eq_number _ NInf = False"
| "less_eq_number PInf _ = False"

instance ..

end

text \<open>\<^verbatim>\<open>isFinite(x)\<close> and \<^verbatim>\<open>Number.isInteger(x)\<close> on a number.\<close>

fun isFinite :: "number \<Rightarrow> bool" where
  "isFinite (Fin a) = True"
| "isFinite _ = False"

fun isInteger :: "number \<Rightarrow> bool" where
  "isInteger (Fin a) = (a = of_int \<lfloor>a\<rfloor>)"
| "isInteger _ = False"

text \<open>The functions of \<^verbatim>\<open>Math\<close> that the library calls.\<close>

fun Math_exp :: "number \<Rightarrow> number" where
  "Math_exp (Fin a) = Fin (exp a)"
| "Math_exp PInf = PInf"
| "Math_exp NInf = Fin 0"
| "Math_exp NaN = NaN"





fun Math_sqrt :: "number \<Rightarrow> number" where
  "Math_sqrt (Fin a) = (if a < 0 then NaN else Fin (sqrt a))"
| "Math_sqrt PInf = PInf"
| "Math_sqrt NInf = NaN"
| "Math_sqrt NaN = NaN"

fun Math_abs :: "number \<Rightarrow> number" where
  "Math_abs (Fin a) = Fin \<bar>a\<bar>"
| "Math_abs PInf = PInf"
| "Math_abs NInf = PInf"
| "Math_abs NaN = NaN"

fun Math_max :: "number \<Rightarrow> number \<Rightarrow> number" where
  "Math_max NaN _ = NaN"
| "Math_max _ NaN = NaN"
| "Math_max a b = (if a < b then b else a)"

fun Math_min :: "number \<Rightarrow> number \<Rightarrow> number" where
  "Math_min NaN _ = NaN"
| "Math_min _ NaN = NaN"
| "Math_min a b = (if b < a then b else a)"

text \<open>\<^verbatim>\<open>Math.pow(x, 2)\<close>: the only exponent the library uses.\<close>

fun Math_pow2 :: "number \<Rightarrow> number" where
  "Math_pow2 (Fin a) = Fin (a ^ 2)"
| "Math_pow2 PInf = PInf"
| "Math_pow2 NInf = PInf"
| "Math_pow2 NaN = NaN"

text \<open>\<^verbatim>\<open>Number.MAX_VALUE\<close>, the largest finite double.\<close>

definition MAX_VALUE :: real where
  "MAX_VALUE = (2 - 1 / 2 ^ 52) * 2 ^ 1023"

section \<open>Activation catalog (src/activations/index.js)\<close>

text \<open>
  An activation object has the properties \<^verbatim>\<open>func\<close>, \<^verbatim>\<open>derivative\<close> and \<^verbatim>\<open>name\<close>; each may
  be absent (\<open>None\<close>), which is what the constructors' \<^verbatim>\<open>typeof\<close> checks test. The
  catalog's own entries carry no \<^verbatim>\<open>name\<close>.
\<close>

record activation =
  func :: "(number \<Rightarrow> number) option"
  derivative :: "(number \<Rightarrow> number) option"
  name :: "string option"

text \<open>
  The functions of the catalog are given on exact numbers, as the real functions whose
  derivatives the catalog's \<^verbatim>\<open>derivative\<close> entries are claimed to be. For \<^verbatim>\<open>sigmoid.func\<close>, whose
  claimed range depends on the rounding, the section on double-precision arithmetic gives
  the rounded computation as well (\<open>sigmoid_func_double\<close>).
\<close>

definition sigmoid_func :: "number \<Rightarrow> number" where
  "sigmoid_func x = Fin 1 / (Fin 1 + Math_exp (- Math_max (Fin (- 500)) (Math_min (Fin 500) x)))"

definition sigmoid_derivative :: "number \<Rightarrow> number" where
  "sigmoid_derivative x = x * (Fin 1 - x)"





















definition linear_func :: "number \<Rightarrow> number" where
  "linear_func x = x"

definition linear_derivative :: "number \<Rightarrow> number" where
  "linear_derivative x = Fin 1"

definition entry :: "(number \<Rightarrow> number) \<Rightarrow> (number \<Rightarrow> number) \<Rightarrow> activation" where
  "entry f f' = \<lparr>func = Some f, derivative = Some f', name = None\<rparr>"



section \<open>Double-precision arithmetic\<close>

text \<open>
  The numbers of JavaScript are the doubles of IEEE 754, and every arithmetic operation
  rounds its exact result to the nearest double, a tie going to the double whose last bit is
  0. The sections above compute with the exact results; this section defines the rounding
  and the rounded operations that \<^verbatim>\<open>sigmoid.func\<close> uses, for the claim about the range of its
  values, which rounding decides.

  A double other than 0 is \<open>n * 2\<^sup>k\<^sup>-\<^sup>5\<^sup>2\<close> for integers \<open>n\<close> and \<open>k\<close> with \<open>- 1022 \<le> k \<le> 1023\<close> and
  \<open>\<bar>n\<bar> < 2\<^sup>5\<^sup>3\<close>; \<open>ulp x\<close> is the distance \<open>2\<^sup>k\<^sup>-\<^sup>5\<^sup>2\<close> between the doubles around \<open>x\<close>, with \<open>k\<close>
  the binary exponent of \<open>x\<close>, and at least \<open>- 1022\<close> (below \<open>2\<^sup>-\<^sup>1\<^sup>0\<^sup>2\<^sup>2\<close> the doubles are
  subnormal and equally spaced).
\<close>

definition ulp :: "real \<Rightarrow> real" where
  "ulp x = 2 powr real_of_int (max \<lfloor>log 2 \<bar>x\<bar>\<rfloor> (- 1022) - 52)"

text \<open>The integer nearest to \<open>q\<close>, the even one of the two when \<open>q\<close> is half-way between them.\<close>

definition round_half_even :: "real \<Rightarrow> int" where
  "round_half_even q =
     (let n = \<lfloor>q\<rfloor>
      in if q - of_int n < 1 / 2 then n
         else if 1 / 2 < q - of_int n then n + 1
         else if even n then n else n + 1)"

text \<open>
  The double nearest to a real: a result beyond \<^verbatim>\<open>Number.MAX_VALUE\<close> after the rounding is an
  infinity. (The sign of a zero is not modelled.)
\<close>

definition round_double :: "real \<Rightarrow> number" where
  "round_double x =
     (if x = 0 then Fin 0
      else (let r = of_int (round_half_even (x / ulp x)) * ulp x
            in if MAX_VALUE < \<bar>r\<bar> then (if 0 < x then PInf else NInf) else Fin r))"

fun round_number :: "number \<Rightarrow> number" where
  "round_number (Fin x) = round_double x"
| "round_number PInf = PInf"
| "round_number NInf = NInf"
| "round_number NaN = NaN"

text \<open>\<^verbatim>\<open>a + b\<close> and \<^verbatim>\<open>a / b\<close> on doubles: the exact result, rounded.\<close>

definition plus_double :: "number \<Rightarrow> number \<Rightarrow> number" where
  "plus_double a b = round_number (a + b)"

definition divide_double :: "number \<Rightarrow> number \<Rightarrow> number" where
  "divide_double a b = round_number (a / b)"

text \<open>
  \<^verbatim>\<open>Math.exp\<close> is left to the implementation by the language standard, which asks for an
  approximation of the exponential. The model takes as a parameter the real function \<open>E\<close>
  that the implementation approximates the exponential by; the value of \<^verbatim>\<open>Math.exp(t)\<close> is the
  double nearest to \<open>E t\<close>. An implementation is accurate on the range that the clamp of
  \<^verbatim>\<open>sigmoid.func\<close> allows when \<open>E t\<close> is within the relative distance \<open>2\<^sup>-\<^sup>5\<^sup>2\<close> of \<open>exp t\<close> there: the
  correctly rounded exponential is the case \<open>E = exp\<close>, and an implementation whose result
  is within one unit in the last place of \<open>exp t\<close> is the case where \<open>E t\<close> is that result.
\<close>

definition Math_exp_double :: "(real \<Rightarrow> real) \<Rightarrow> number \<Rightarrow> number" where
  "Math_exp_double E x =
     (case x of
        Fin t \<Rightarrow> round_double (E t)
      | PInf \<Rightarrow> PInf
      | NInf \<Rightarrow> Fin 0
      | NaN \<Rightarrow> NaN)"

definition Math_exp_accurate :: "(real \<Rightarrow> real) \<Rightarrow> bool" where
  "Math_exp_accurate E \<longleftrightarrow>
     (\<forall>t. - 500 \<le> t \<and> t \<le> 500 \<longrightarrow> \<bar>E t - exp t\<bar> \<le> exp t / 2 ^ 52)"

text \<open>
  \<^verbatim>\<open>sigmoid.func\<close> as the doubles compute it:
  \<^verbatim>\<open>1 / (1 + Math.exp(-Math.max(-500, Math.min(500, x))))\<close>. The negation, \<^verbatim>\<open>Math.max\<close> and
  \<^verbatim>\<open>Math.min\<close> are exact on doubles.
\<close>

definition sigmoid_func_double :: "(real \<Rightarrow> real) \<Rightarrow> number \<Rightarrow> number" where
  "sigmoid_func_double E x =
     divide_double (Fin 1)
       (plus_double (Fin 1) (Math_exp_double E (- Math_max (Fin (- 500)) (Math_min (Fin 500) x))))"

section \<open>Values, errors and the random generator\<close>

text \<open>
  An argument or property that the code expects to be an array is either an array or
  absent (\<^verbatim>\<open>undefined\<close>): \<^verbatim>\<open>Array.isArray\<close> and the truthiness test \<^verbatim>\<open>!x\<close> tell the two
  apart, and reading \<^verbatim>\<open>.length\<close> of \<^verbatim>\<open>undefined\<close> raises a TypeError. Array elements are
  numbers, so the \<^verbatim>\<open>typeof input !== 'number'\<close> test of the elements is always false.
\<close>

datatype 'a js_array = Undefined | Array "'a list"

fun isArray :: "'a js_array \<Rightarrow> bool" where
  "isArray (Array xs) = True"
| "isArray Undefined = False"

text \<open>A value of any type, as \<^verbatim>\<open>setLearningRate\<close> may receive it.\<close>

datatype jsval = JNumber number | JString string | JBoolean bool | JNull | JUndefined

text \<open>
  Every \<^verbatim>\<open>throw new Error(message)\<close> of the library, by message, and the two native
  errors that the library can provoke:
  \<^item> \<open>NeuronInputNotArray\<close>, \<open>PredictInputNotArray\<close>: 'Input data must be an array'
  \<^item> \<open>NeuronInputSizeMismatch\<close>: 'Input size (..) does not match number of weights (..)'
  \<^item> \<open>InputNotFinite\<close>: 'All input values must be finite numbers'
  \<^item> \<open>NoLastInputs\<close>: 'Cannot update weights: no last inputs data available'
  \<^item> \<open>InvalidWeightsFormat\<close>: 'Invalid weights format'
  \<^item> \<open>NeuronCountInvalid\<close>: 'Number of neurons must be a positive integer'
  \<^item> \<open>InputSizeInvalid\<close>: 'Input size must be a positive integer'
  \<^item> \<open>ActivationInvalid\<close>: 'Activation function must contain func and derivative methods'
  \<^item> \<open>LayerInputSizeMismatch\<close>, \<open>PredictInputSizeMismatch\<close>:
    'Input size (..) does not match expected size (..)'
  \<^item> \<open>TargetSizeMismatch\<close>: 'Target size (..) does not match number of neurons (..)'
  \<^item> \<open>DeltasNotArrays\<close>: 'Deltas and weights must be arrays'
  \<^item> \<open>DeltasCountMismatch\<close>: 'Number of deltas must match number of weight vectors'
  \<^item> \<open>InvalidWeightsData\<close>: 'Invalid weights data format'
  \<^item> \<open>ActivationFuncMissing\<close>: 'Activation function must be an object with func method'
  \<^item> \<open>FirstLayerInputSizeMissing\<close>: 'Input size must be specified for the first layer'
  \<^item> \<open>CompileNoLayers\<close>: 'Network must contain at least one layer'
  \<^item> \<open>PredictNoLayers\<close>: 'Network contains no layers'
  \<^item> \<open>TrainingDataEmpty\<close>: 'Training data must be a non-empty array'
  \<^item> \<open>ExampleFieldsMissing\<close>: 'Each example must contain input and target fields'
  \<^item> \<open>InputSizesDiffer\<close>: 'All input vectors must have the same size'
  \<^item> \<open>TargetSizesDiffer\<close>: 'All target vectors must have the same size'
  \<^item> \<open>NetworkInputSizeMismatch\<close>: 'Network input size (..) does not match input data size (..)'
  \<^item> \<open>OutputLayerSizeMismatch\<close>: 'Output layer size (..) does not match target data size (..)'
  \<^item> \<open>ErrorLengthMismatch\<close>: 'Predicted and actual values must have the same length'
  \<^item> \<open>LearningRateInvalid\<close>: 'Learning rate must be a positive number'
\<close>

datatype error =
    NeuronInputNotArray | NeuronInputSizeMismatch | InputNotFinite | NoLastInputs
  | InvalidWeightsFormat
  | NeuronCountInvalid | InputSizeInvalid | ActivationInvalid | LayerInputSizeMismatch
  | TargetSizeMismatch | DeltasNotArrays | DeltasCountMismatch | InvalidWeightsData
  | ActivationFuncMissing | FirstLayerInputSizeMissing | CompileNoLayers
  | PredictInputNotArray | PredictNoLayers | PredictInputSizeMismatch
  | TrainingDataEmpty | ExampleFieldsMissing | InputSizesDiffer | TargetSizesDiffer
  | NetworkInputSizeMismatch | OutputLayerSizeMismatch | ErrorLengthMismatch
  | LearningRateInvalid
  | TypeError | RangeError

text \<open>
  \<^verbatim>\<open>Math.random()\<close> returns a number in \<open>[0, 1)\<close>. The ambient generator is the
  sequence of the draws still to come; a call takes the first one.
\<close>

typedef draw = "{r::real. 0 \<le> r \<and> r < 1}"
  morphisms draw_value Draw
  by (rule exI[of _ 0]) simp

type_synonym generator = "nat \<Rightarrow> draw"

definition Math_random :: "generator \<Rightarrow> real \<times> generator" where
  "Math_random g = (draw_value (g 0), \<lambda>i. g (Suc i))"

text \<open>Reading \<^verbatim>\<open>xs[i]\<close> for use in arithmetic: out of range it is \<^verbatim>\<open>undefined\<close>, hence NaN.\<close>

definition at_index :: "number list \<Rightarrow> nat \<Rightarrow> number" where
  "at_index xs i = (if i < length xs then xs ! i else NaN)"

text \<open>The length of an array as a number, and an integral number as a count.\<close>

definition len :: "'a list \<Rightarrow> number" where
  "len xs = Fin (real (length xs))"

fun count :: "number \<Rightarrow> nat" where
  "count (Fin a) = nat \<lfloor>a\<rfloor>"
| "count _ = 0"

section \<open>Neuron (src/core/Neuron.js)\<close>

record neuron =
  weights :: "number list"
  bias :: number
  lastInputs :: "number list option"
  lastOutput :: "number option"

text \<open>
  \<^verbatim>\<open>Array(inputSize).fill(0).map(() => (Math.random() * 2 - 1) * limit)\<close>: one draw per
  element, in index order. \<^verbatim>\<open>Array(n)\<close> raises a RangeError unless \<open>n\<close> is a
  non-negative integer (the upper limit on array lengths is not modelled).
\<close>

fun random_weights :: "nat \<Rightarrow> number \<Rightarrow> generator \<Rightarrow> number list \<times> generator" where
  "random_weights 0 limit g = ([], g)"
| "random_weights (Suc k) limit g =
     (let (r, g1) = Math_random g;
          w = (Fin r * Fin 2 - Fin 1) * limit;
          (ws, g2) = random_weights k limit g1
      in (w # ws, g2))"

definition initializeWeights :: "number \<Rightarrow> generator \<Rightarrow> (error + number list) \<times> generator" where
  "initializeWeights inputSize g =
     (let limit = Math_sqrt (Fin 6 / (inputSize + Fin 1))
      in if isInteger inputSize \<and> Fin 0 \<le> inputSize
         then (let (ws, g1) = random_weights (count inputSize) limit g in (Inr ws, g1))
         else (Inl RangeError, g))"

definition initializeBias :: "generator \<Rightarrow> number \<times> generator" where
  "initializeBias g = (let (r, g1) = Math_random g in ((Fin r * Fin 2 - Fin 1) * Fin (1 / 10), g1))"

definition Neuron_new :: "number \<Rightarrow> generator \<Rightarrow> (error + neuron) \<times> generator" where
  "Neuron_new inputSize g =
     (case initializeWeights inputSize g of
        (Inl e, g1) \<Rightarrow> (Inl e, g1)
      | (Inr ws, g1) \<Rightarrow>
          (let (b, g2) = initializeBias g1
           in (Inr \<lparr>weights = ws, bias = b, lastInputs = None, lastOutput = None\<rparr>, g2)))"

text \<open>\<^verbatim>\<open>validateInputs\<close>: \<open>None\<close> when nothing is thrown.\<close>

definition Neuron_validateInputs :: "neuron \<Rightarrow> number js_array \<Rightarrow> error option" where
  "Neuron_validateInputs n inputs =
     (case inputs of
        Undefined \<Rightarrow> Some NeuronInputNotArray
      | Array xs \<Rightarrow>
          if length xs \<noteq> length (weights n) then Some NeuronInputSizeMismatch
          else if list_ex (\<lambda>input. \<not> isFinite input) xs then Some InputNotFinite
          else None)"

text \<open>\<^verbatim>\<open>inputs.reduce((sum, input, index) => sum + input * this.weights[index], this.bias)\<close>\<close>

definition calculateWeightedSum :: "neuron \<Rightarrow> number list \<Rightarrow> number" where
  "calculateWeightedSum n inputs =
     foldl (\<lambda>sum (input, index). sum + input * at_index (weights n) index)
       (bias n) (zip inputs [0..<length inputs])"

text \<open>
  \<^verbatim>\<open>forward\<close>: the activation function is the value the caller passes; when it is not a
  function (\<open>None\<close>), calling it raises a TypeError after \<^verbatim>\<open>lastInputs\<close> was assigned.
\<close>

definition Neuron_forward ::
  "neuron \<Rightarrow> number js_array \<Rightarrow> (number \<Rightarrow> number) option \<Rightarrow> (error + number) \<times> neuron" where
  "Neuron_forward n inputs activationFunction =
     (case Neuron_validateInputs n inputs of
        Some e \<Rightarrow> (Inl e, n)
      | None \<Rightarrow>
          (case inputs of
             Undefined \<Rightarrow> (Inl NeuronInputNotArray, n)
           | Array xs \<Rightarrow>
               (let n1 = n\<lparr>lastInputs := Some xs\<rparr>;
                    weightedSum = calculateWeightedSum n1 xs
                in case activationFunction of
                     None \<Rightarrow> (Inl TypeError, n1)
                   | Some f \<Rightarrow>
                       (let out = f weightedSum
                        in (Inr out, n1\<lparr>lastOutput := Some out\<rparr>)))))"

text \<open>
  \<^verbatim>\<open>updateWeights\<close>: the loop \<^verbatim>\<open>for (i = 0; i < weights.length; i++) weights[i] += ...\<close>
  as a fold over the indices.
\<close>

definition Neuron_updateWeights :: "neuron \<Rightarrow> number \<Rightarrow> number \<Rightarrow> (error + unit) \<times> neuron" where
  "Neuron_updateWeights n delta learningRate =
     (case lastInputs n of
        None \<Rightarrow> (Inl NoLastInputs, n)
      | Some li \<Rightarrow>
          (let ws = fold (\<lambda>i ws. ws[i := ws ! i + learningRate * delta * at_index li i])
                      [0..<length (weights n)] (weights n)
           in (Inr (), n\<lparr>weights := ws, bias := bias n + learningRate * delta\<rparr>)))"

definition Neuron_getWeights :: "neuron \<Rightarrow> number list \<times> number" where
  "Neuron_getWeights n = (weights n, bias n)"

definition Neuron_setWeights :: "neuron \<Rightarrow> number js_array \<Rightarrow> number \<Rightarrow> (error + unit) \<times> neuron" where
  "Neuron_setWeights n ws b =
     (case ws of
        Undefined \<Rightarrow> (Inl InvalidWeightsFormat, n)
      | Array xs \<Rightarrow>
          if length xs \<noteq> length (weights n) then (Inl InvalidWeightsFormat, n)
          else (Inr (), n\<lparr>weights := xs, bias := b\<rparr>))"

section \<open>Layer (src/core/Layer.js)\<close>

record layer =
  neurons :: "neuron list"
  activationFunction :: activation
  outputs :: "number list"
  layer_size :: number
  inputSize :: number

text \<open>
  \<^verbatim>\<open>validateParameters\<close>. The input size is \<^verbatim>\<open>null\<close> (\<open>None\<close>) or a number, and the
  activation argument may be missing (\<open>None\<close>); \<^verbatim>\<open>Number.isInteger(null)\<close> is false.
  The parameters \<^verbatim>\<open>inputSize\<close> and \<^verbatim>\<open>activationFunction\<close> are written \<open>inSize\<close> and
  \<open>actFn\<close>, to keep them apart from the fields of the same names.
\<close>

definition Layer_validateParameters ::
  "number \<Rightarrow> number option \<Rightarrow> activation option \<Rightarrow> error option" where
  "Layer_validateParameters neuronCount inSize actFn =
     (if \<not> isInteger neuronCount \<or> neuronCount \<le> Fin 0 then Some NeuronCountInvalid
      else if (case inSize of None \<Rightarrow> True | Some s \<Rightarrow> \<not> isInteger s \<or> s \<le> Fin 0)
        then Some InputSizeInvalid
      else if (case actFn of
                 None \<Rightarrow> True
               | Some a \<Rightarrow> func a = None \<or> derivative a = None)
        then Some ActivationInvalid
      else None)"

text \<open>\<^verbatim>\<open>Array(neuronCount).fill(null).map(() => new Neuron(inputSize))\<close>\<close>

fun createNeurons :: "nat \<Rightarrow> number \<Rightarrow> generator \<Rightarrow> (error + neuron list) \<times> generator" where
  "createNeurons 0 inSize g = (Inr [], g)"
| "createNeurons (Suc k) inSize g =
     (case Neuron_new inSize g of
        (Inl e, g1) \<Rightarrow> (Inl e, g1)
      | (Inr n, g1) \<Rightarrow>
          (case createNeurons k inSize g1 of
             (Inl e, g2) \<Rightarrow> (Inl e, g2)
           | (Inr ns, g2) \<Rightarrow> (Inr (n # ns), g2)))"

definition Layer_new ::
  "number \<Rightarrow> number option \<Rightarrow> activation option \<Rightarrow> generator \<Rightarrow> (error + layer) \<times> generator" where
  "Layer_new neuronCount inSize actFn g =
     (case Layer_validateParameters neuronCount inSize actFn of
        Some e \<Rightarrow> (Inl e, g)
      | None \<Rightarrow>
          (case (inSize, actFn) of
             (Some s, Some a) \<Rightarrow>
               (case createNeurons (count neuronCount) s g of
                  (Inl e, g1) \<Rightarrow> (Inl e, g1)
                | (Inr ns, g1) \<Rightarrow>
                    (Inr \<lparr>neurons = ns, activationFunction = a, outputs = [],
                          layer_size = neuronCount, inputSize = s\<rparr>, g1))
           | _ \<Rightarrow> (Inl TypeError, g)))"

definition Layer_validateInputs :: "layer \<Rightarrow> number js_array \<Rightarrow> error option" where
  "Layer_validateInputs l inputs =
     (case inputs of
        Undefined \<Rightarrow> Some LayerInputSizeMismatch
      | Array xs \<Rightarrow> if len xs \<noteq> inputSize l then Some LayerInputSizeMismatch else None)"

text \<open>
  \<^verbatim>\<open>this.neurons.map(neuron => neuron.forward(inputs, this.activationFunction.func))\<close>:
  the neurons run in order, and a throw leaves the neurons already run with their new caches.
\<close>

fun forward_neurons ::
  "neuron list \<Rightarrow> number js_array \<Rightarrow> (number \<Rightarrow> number) option \<Rightarrow> (error + number list) \<times> neuron list" where
  "forward_neurons [] inputs f = (Inr [], [])"
| "forward_neurons (n # ns) inputs f =
     (case Neuron_forward n inputs f of
        (Inl e, n1) \<Rightarrow> (Inl e, n1 # ns)
      | (Inr out, n1) \<Rightarrow>
          (case forward_neurons ns inputs f of
             (Inl e, ns1) \<Rightarrow> (Inl e, n1 # ns1)
           | (Inr outs, ns1) \<Rightarrow> (Inr (out # outs), n1 # ns1)))"

definition Layer_forward :: "layer \<Rightarrow> number js_array \<Rightarrow> (error + number list) \<times> layer" where
  "Layer_forward l inputs =
     (case Layer_validateInputs l inputs of
        Some e \<Rightarrow> (Inl e, l)
      | None \<Rightarrow>
          (case forward_neurons (neurons l) inputs (func (activationFunction l)) of
             (Inl e, ns) \<Rightarrow> (Inl e, l\<lparr>neurons := ns\<rparr>)
           | (Inr outs, ns) \<Rightarrow> (Inr outs, l\<lparr>neurons := ns, outputs := outs\<rparr>)))"

definition validateTargets :: "layer \<Rightarrow> number js_array \<Rightarrow> error option" where
  "validateTargets l targets =
     (case targets of
        Undefined \<Rightarrow> Some TargetSizeMismatch
      | Array ts \<Rightarrow> if length ts \<noteq> length (neurons l) then Some TargetSizeMismatch else None)"

text \<open>
  The loop of \<^verbatim>\<open>backwardOutput\<close> over the indices \<open>i\<close> still to do; \<open>deltas\<close> is the array
  built so far. A missing \<^verbatim>\<open>derivative\<close> raises a TypeError when it is called; a throw of
  \<^verbatim>\<open>updateWeights\<close> leaves the neurons before \<open>i\<close> updated.
\<close>

fun backwardOutput_loop ::
  "nat list \<Rightarrow> number list \<Rightarrow> number \<Rightarrow> layer \<Rightarrow> number list \<Rightarrow> (error + number list) \<times> layer" where
  "backwardOutput_loop [] targets learningRate l deltas = (Inr deltas, l)"
| "backwardOutput_loop (i # rest) targets learningRate l deltas =
     (let error = at_index targets i - at_index (outputs l) i
      in case derivative (activationFunction l) of
           None \<Rightarrow> (Inl TypeError, l)
         | Some d \<Rightarrow>
             (let delta = error * d (at_index (outputs l) i)
              in case Neuron_updateWeights (neurons l ! i) delta learningRate of
                   (Inl e, n1) \<Rightarrow> (Inl e, l)
                 | (Inr u, n1) \<Rightarrow>
                     backwardOutput_loop rest targets learningRate
                       (l\<lparr>neurons := (neurons l)[i := n1]\<rparr>) (deltas @ [delta])))"

definition backwardOutput :: "layer \<Rightarrow> number js_array \<Rightarrow> number \<Rightarrow> (error + number list) \<times> layer" where
  "backwardOutput l targets learningRate =
     (case validateTargets l targets of
        Some e \<Rightarrow> (Inl e, l)
      | None \<Rightarrow>
          (case targets of
             Undefined \<Rightarrow> (Inl TargetSizeMismatch, l)
           | Array ts \<Rightarrow> backwardOutput_loop [0..<length (neurons l)] ts learningRate l []))"

definition validateBackpropagationInputs ::
  "number js_array \<Rightarrow> number list js_array \<Rightarrow> error option" where
  "validateBackpropagationInputs deltas ws =
     (case (deltas, ws) of
        (Array ds, Array wss) \<Rightarrow>
          if length ds \<noteq> length wss then Some DeltasCountMismatch else None
      | _ \<Rightarrow> Some DeltasNotArrays)"

text \<open>
  \<^verbatim>\<open>nextLayerDeltas.reduce((error, delta, deltaIndex) =>
     error + delta * nextLayerWeights[deltaIndex][neuronIndex], 0)\<close>;
  the two arrays have the same length when this runs.
\<close>

definition calculateNeuronError :: "nat \<Rightarrow> number list \<Rightarrow> number list list \<Rightarrow> number" where
  "calculateNeuronError neuronIndex nextLayerDeltas nextLayerWeights =
     foldl (\<lambda>error (delta, deltaIndex).
              error + delta * at_index (nextLayerWeights ! deltaIndex) neuronIndex)
       (Fin 0) (zip nextLayerDeltas [0..<length nextLayerDeltas])"

fun backwardHidden_loop ::
  "nat list \<Rightarrow> number list \<Rightarrow> number list list \<Rightarrow> number \<Rightarrow> layer \<Rightarrow> number list
     \<Rightarrow> (error + number list) \<times> layer" where
  "backwardHidden_loop [] nextLayerDeltas nextLayerWeights learningRate l deltas = (Inr deltas, l)"
| "backwardHidden_loop (i # rest) nextLayerDeltas nextLayerWeights learningRate l deltas =
     (let error = calculateNeuronError i nextLayerDeltas nextLayerWeights
      in case derivative (activationFunction l) of
           None \<Rightarrow> (Inl TypeError, l)
         | Some d \<Rightarrow>
             (let delta = error * d (at_index (outputs l) i)
              in case Neuron_updateWeights (neurons l ! i) delta learningRate of
                   (Inl e, n1) \<Rightarrow> (Inl e, l)
                 | (Inr u, n1) \<Rightarrow>
                     backwardHidden_loop rest nextLayerDeltas nextLayerWeights learningRate
                       (l\<lparr>neurons := (neurons l)[i := n1]\<rparr>) (deltas @ [delta])))"

definition backwardHidden ::
  "layer \<Rightarrow> number js_array \<Rightarrow> number list js_array \<Rightarrow> number \<Rightarrow> (error + number list) \<times> layer" where
  "backwardHidden l nextLayerDeltas nextLayerWeights learningRate =
     (case validateBackpropagationInputs nextLayerDeltas nextLayerWeights of
        Some e \<Rightarrow> (Inl e, l)
      | None \<Rightarrow>
          (case (nextLayerDeltas, nextLayerWeights) of
             (Array ds, Array wss) \<Rightarrow>
               backwardHidden_loop [0..<length (neurons l)] ds wss learningRate l []
           | _ \<Rightarrow> (Inl DeltasNotArrays, l)))"

definition Layer_getWeights :: "layer \<Rightarrow> (number list \<times> number) list" where
  "Layer_getWeights l = map Neuron_getWeights (neurons l)"

definition getConnectionWeights :: "layer \<Rightarrow> number list list" where
  "getConnectionWeights l = map weights (neurons l)"

text \<open>
  \<^verbatim>\<open>setWeights\<close>: \<^verbatim>\<open>weightsData.forEach((data, index) => neurons[index].setWeights(..))\<close>,
  in index order; a throw leaves the neurons before it with their new weights.
\<close>

fun setWeights_loop ::
  "nat list \<Rightarrow> (number js_array \<times> number) list \<Rightarrow> layer \<Rightarrow> (error + unit) \<times> layer" where
  "setWeights_loop [] weightsData l = (Inr (), l)"
| "setWeights_loop (index # rest) weightsData l =
     (case Neuron_setWeights (neurons l ! index) (fst (weightsData ! index)) (snd (weightsData ! index)) of
        (Inl e, n1) \<Rightarrow> (Inl e, l)
      | (Inr u, n1) \<Rightarrow> setWeights_loop rest weightsData (l\<lparr>neurons := (neurons l)[index := n1]\<rparr>))"

definition Layer_setWeights ::
  "layer \<Rightarrow> (number js_array \<times> number) js_array \<Rightarrow> (error + unit) \<times> layer" where
  "Layer_setWeights l weightsData =
     (case weightsData of
        Undefined \<Rightarrow> (Inl InvalidWeightsData, l)
      | Array ds \<Rightarrow>
          if length ds \<noteq> length (neurons l) then (Inl InvalidWeightsData, l)
          else setWeights_loop [0..<length ds] ds l)"

definition Layer_reset :: "layer \<Rightarrow> layer" where
  "Layer_reset l =
     l\<lparr>outputs := [],
       neurons := map (\<lambda>neuron. neuron\<lparr>lastInputs := None, lastOutput := None\<rparr>) (neurons l)\<rparr>"

section \<open>Network (src/core/Network.js)\<close>

text \<open>
  The class as the specification and the tests describe it (394 lines, with validation,
  \<^verbatim>\<open>isCompiled\<close>, shuffling and early stopping). The repository also holds a shorter copy of 92
  lines with none of these: its \<^verbatim>\<open>setLearningRate\<close> assigns without a test and its \<^verbatim>\<open>train\<close>
  runs the examples in the given order. That copy is not modelled.
\<close>

text \<open>
  A training or validation example is an object whose \<^verbatim>\<open>input\<close> and \<^verbatim>\<open>target\<close> properties
  are arrays of numbers or are absent. The options of \<^verbatim>\<open>train\<close> default to \<^verbatim>\<open>false\<close>,
  \<^verbatim>\<open>null\<close> and \<^verbatim>\<open>null\<close> (\<open>None\<close>).
\<close>

record example =
  input :: "number js_array"
  target :: "number js_array"

record options =
  verbose :: bool
  validationData :: "example list option"
  earlyStoppingPatience :: "number option"

record network =
  layers :: "layer list"
  learningRate :: number
  trainingHistory :: "number list"
  isCompiled :: bool

definition Network_new :: network where
  "Network_new = \<lparr>layers = [], learningRate = Fin (1 / 10), trainingHistory = [], isCompiled = False\<rparr>"

definition validateLayerParameters ::
  "network \<Rightarrow> number \<Rightarrow> activation option \<Rightarrow> number option \<Rightarrow> error option" where
  "validateLayerParameters net neuronCount actFn inSize =
     (if \<not> isInteger neuronCount \<or> neuronCount \<le> Fin 0 then Some NeuronCountInvalid
      else if (case actFn of None \<Rightarrow> True | Some a \<Rightarrow> func a = None)
        then Some ActivationFuncMissing
      else if layers net = [] \<and> (case inSize of None \<Rightarrow> True | Some s \<Rightarrow> s \<le> Fin 0)
        then Some FirstLayerInputSizeMissing
      else None)"

definition determineLayerInputSize :: "network \<Rightarrow> number option \<Rightarrow> number option" where
  "determineLayerInputSize net inSize =
     (if layers net = [] then inSize else Some (layer_size (last (layers net))))"

definition addLayer ::
  "network \<Rightarrow> number \<Rightarrow> activation option \<Rightarrow> number option \<Rightarrow> generator
     \<Rightarrow> (error + unit) \<times> network \<times> generator" where
  "addLayer net neuronCount actFn inSize g =
     (case validateLayerParameters net neuronCount actFn inSize of
        Some e \<Rightarrow> (Inl e, net, g)
      | None \<Rightarrow>
          (let layerInputSize = determineLayerInputSize net inSize
           in case Layer_new neuronCount layerInputSize actFn g of
                (Inl e, g1) \<Rightarrow> (Inl e, net, g1)
              | (Inr layer, g1) \<Rightarrow>
                  (Inr (), net\<lparr>layers := layers net @ [layer], isCompiled := False\<rparr>, g1)))"

definition compile :: "network \<Rightarrow> (error + unit) \<times> network" where
  "compile net =
     (if layers net = [] then (Inl CompileNoLayers, net)
      else (Inr (), net\<lparr>isCompiled := True\<rparr>))"

definition validatePredictionInputs :: "network \<Rightarrow> number js_array \<Rightarrow> error option" where
  "validatePredictionInputs net inputs =
     (case inputs of
        Undefined \<Rightarrow> Some PredictInputNotArray
      | Array xs \<Rightarrow>
          if layers net = [] then Some PredictNoLayers
          else if len xs \<noteq> inputSize (hd (layers net)) then Some PredictInputSizeMismatch
          else None)"

text \<open>\<^verbatim>\<open>for (const layer of this.layers) currentInputs = layer.forward(currentInputs)\<close>\<close>

fun predict_loop :: "layer list \<Rightarrow> number list \<Rightarrow> (error + number list) \<times> layer list" where
  "predict_loop [] currentInputs = (Inr currentInputs, [])"
| "predict_loop (l # ls) currentInputs =
     (case Layer_forward l (Array currentInputs) of
        (Inl e, l1) \<Rightarrow> (Inl e, l1 # ls)
      | (Inr out, l1) \<Rightarrow>
          (case predict_loop ls out of (r, ls1) \<Rightarrow> (r, l1 # ls1)))"

definition predict :: "network \<Rightarrow> number js_array \<Rightarrow> (error + number list) \<times> network" where
  "predict net inputs =
     (case validatePredictionInputs net inputs of
        Some e \<Rightarrow> (Inl e, net)
      | None \<Rightarrow>
          (case inputs of
             Undefined \<Rightarrow> (Inl PredictInputNotArray, net)
           | Array xs \<Rightarrow>
               (case predict_loop (layers net) xs of (r, ls) \<Rightarrow> (r, net\<lparr>layers := ls\<rparr>))))"

text \<open>
  \<^verbatim>\<open>calculateError\<close>: reading \<^verbatim>\<open>actual.length\<close> of a missing \<^verbatim>\<open>actual\<close> raises a TypeError.
\<close>

definition calculateError :: "number list \<Rightarrow> number js_array \<Rightarrow> error + number" where
  "calculateError predicted actual =
     (case actual of
        Undefined \<Rightarrow> Inl TypeError
      | Array acts \<Rightarrow>
          if length predicted \<noteq> length acts then Inl ErrorLengthMismatch
          else (let sumSquaredError =
                      foldl (\<lambda>sum (pred, index). sum + Math_pow2 (pred - at_index acts index))
                        (Fin 0) (zip predicted [0..<length predicted])
                in Inr (sumSquaredError / len predicted)))"

text \<open>
  \<^verbatim>\<open>backpropagate\<close>. The loop \<^verbatim>\<open>for (i = layers.length - 2; i >= 0; i--)\<close> is counted by
  \<open>i + 1\<close>, so that it stops at \<open>0\<close>. \<^verbatim>\<open>getConnectionWeights\<close> of the next layer is read
  after that layer was updated. With no layer, \<^verbatim>\<open>outputLayer\<close> is \<^verbatim>\<open>undefined\<close> and the call
  of its method raises a TypeError.
\<close>

fun backpropagate_loop ::
  "nat \<Rightarrow> layer list \<Rightarrow> number list \<Rightarrow> number \<Rightarrow> (error + unit) \<times> layer list" where
  "backpropagate_loop 0 ls deltas rate = (Inr (), ls)"
| "backpropagate_loop (Suc i) ls deltas rate =
     (let currentLayer = ls ! i;
          nextLayer = ls ! (i + 1);
          nextLayerWeights = getConnectionWeights nextLayer
      in case backwardHidden currentLayer (Array deltas) (Array nextLayerWeights) rate of
           (Inl e, l1) \<Rightarrow> (Inl e, ls[i := l1])
         | (Inr ds, l1) \<Rightarrow> backpropagate_loop i (ls[i := l1]) ds rate)"

definition backpropagate :: "network \<Rightarrow> number js_array \<Rightarrow> (error + unit) \<times> network" where
  "backpropagate net targets =
     (if layers net = [] then (Inl TypeError, net)
      else (let k = length (layers net) - 1;
                outputLayer = layers net ! k
            in case backwardOutput outputLayer targets (learningRate net) of
                 (Inl e, l1) \<Rightarrow> (Inl e, net\<lparr>layers := (layers net)[k := l1]\<rparr>)
               | (Inr deltas, l1) \<Rightarrow>
                   (case backpropagate_loop k ((layers net)[k := l1]) deltas (learningRate net) of
                      (r, ls) \<Rightarrow> (r, net\<lparr>layers := ls\<rparr>))))"

text \<open>
  \<^verbatim>\<open>shuffleArray\<close>: \<^verbatim>\<open>for (i = array.length - 1; i > 0; i--)\<close> with
  \<^verbatim>\<open>j = Math.floor(Math.random() * (i + 1))\<close> and the swap of \<^verbatim>\<open>array[i]\<close> and \<^verbatim>\<open>array[j]\<close>.
\<close>

fun shuffle_loop :: "nat \<Rightarrow> 'a list \<Rightarrow> generator \<Rightarrow> 'a list \<times> generator" where
  "shuffle_loop 0 array g = (array, g)"
| "shuffle_loop (Suc k) array g =
     (let i = Suc k;
          (r, g1) = Math_random g;
          j = nat \<lfloor>r * real (i + 1)\<rfloor>
      in shuffle_loop k (array[i := array ! j, j := array ! i]) g1)"

definition shuffleArray :: "'a list \<Rightarrow> generator \<Rightarrow> 'a list \<times> generator" where
  "shuffleArray array g = shuffle_loop (length array - 1) array g"

text \<open>The loop of \<^verbatim>\<open>trainEpoch\<close> over the shuffled examples.\<close>

fun trainEpoch_loop :: "example list \<Rightarrow> network \<Rightarrow> number \<Rightarrow> (error + number) \<times> network" where
  "trainEpoch_loop [] net totalError = (Inr totalError, net)"
| "trainEpoch_loop (ex # rest) net totalError =
     (case predict net (input ex) of
        (Inl e, net1) \<Rightarrow> (Inl e, net1)
      | (Inr output, net1) \<Rightarrow>
          (case calculateError output (target ex) of
             Inl e \<Rightarrow> (Inl e, net1)
           | Inr error \<Rightarrow>
               (case backpropagate net1 (target ex) of
                  (Inl e, net2) \<Rightarrow> (Inl e, net2)
                | (Inr u, net2) \<Rightarrow> trainEpoch_loop rest net2 (totalError + error))))"

definition trainEpoch ::
  "network \<Rightarrow> example list \<Rightarrow> generator \<Rightarrow> (error + number) \<times> network \<times> generator" where
  "trainEpoch net trainingData g =
     (let (shuffledData, g1) = shuffleArray trainingData g
      in case trainEpoch_loop shuffledData net (Fin 0) of
           (Inl e, net1) \<Rightarrow> (Inl e, net1, g1)
         | (Inr totalError, net1) \<Rightarrow> (Inr (totalError / len trainingData), net1, g1))"

fun evaluateValidation_loop :: "example list \<Rightarrow> network \<Rightarrow> number \<Rightarrow> (error + number) \<times> network" where
  "evaluateValidation_loop [] net totalError = (Inr totalError, net)"
| "evaluateValidation_loop (ex # rest) net totalError =
     (case predict net (input ex) of
        (Inl e, net1) \<Rightarrow> (Inl e, net1)
      | (Inr output, net1) \<Rightarrow>
          (case calculateError output (target ex) of
             Inl e \<Rightarrow> (Inl e, net1)
           | Inr error \<Rightarrow> evaluateValidation_loop rest net1 (totalError + error)))"

definition evaluateValidation :: "network \<Rightarrow> example list \<Rightarrow> (error + number) \<times> network" where
  "evaluateValidation net vdata =
     (case evaluateValidation_loop vdata net (Fin 0) of
        (Inl e, net1) \<Rightarrow> (Inl e, net1)
      | (Inr totalError, net1) \<Rightarrow> (Inr (totalError / len vdata), net1))"

text \<open>
  \<^verbatim>\<open>validateTrainingData\<close>. Only the first example is tested for its two fields; the loop
  over all examples reads \<^verbatim>\<open>example.input.length\<close> and \<^verbatim>\<open>example.target.length\<close>, which
  raises a TypeError on an absent field.
\<close>

fun validate_sizes :: "example list \<Rightarrow> nat \<Rightarrow> nat \<Rightarrow> error option" where
  "validate_sizes [] inSize outputSize = None"
| "validate_sizes (ex # rest) inSize outputSize =
     (case input ex of
        Undefined \<Rightarrow> Some TypeError
      | Array xs \<Rightarrow>
          if length xs \<noteq> inSize then Some InputSizesDiffer
          else (case target ex of
                  Undefined \<Rightarrow> Some TypeError
                | Array ts \<Rightarrow>
                    if length ts \<noteq> outputSize then Some TargetSizesDiffer
                    else validate_sizes rest inSize outputSize))"

definition validateTrainingData :: "example js_array \<Rightarrow> error option" where
  "validateTrainingData trainingData =
     (case trainingData of
        Undefined \<Rightarrow> Some TrainingDataEmpty
      | Array [] \<Rightarrow> Some TrainingDataEmpty
      | Array (firstExample # rest) \<Rightarrow>
          (case (input firstExample, target firstExample) of
             (Array xs, Array ts) \<Rightarrow> validate_sizes (firstExample # rest) (length xs) (length ts)
           | _ \<Rightarrow> Some ExampleFieldsMissing))"

text \<open>
  \<^verbatim>\<open>prepareForTraining\<close>: compile if needed, empty the history, then compare the
  architecture with the first example.
\<close>

definition prepareForTraining :: "network \<Rightarrow> example list \<Rightarrow> (error + unit) \<times> network" where
  "prepareForTraining net trainingData =
     (case (if \<not> isCompiled net then compile net else (Inr (), net)) of
        (Inl e, net1) \<Rightarrow> (Inl e, net1)
      | (Inr u, net1) \<Rightarrow>
          (let net2 = net1\<lparr>trainingHistory := []\<rparr>
           in case trainingData of
                [] \<Rightarrow> (Inl TypeError, net2)
              | firstExample # rest \<Rightarrow>
                  (case (input firstExample, target firstExample) of
                     (Array xs, Array ts) \<Rightarrow>
                       if layers net2 = [] then (Inl TypeError, net2)
                       else if inputSize (hd (layers net2)) \<noteq> len xs
                         then (Inl NetworkInputSizeMismatch, net2)
                       else if layer_size (last (layers net2)) \<noteq> len ts
                         then (Inl OutputLayerSizeMismatch, net2)
                       else (Inr (), net2)
                   | _ \<Rightarrow> (Inl TypeError, net2))))"

text \<open>
  The truthiness of \<^verbatim>\<open>validationData && earlyStoppingPatience\<close>: an array is truthy, a
  number is truthy unless it is 0 or NaN, \<^verbatim>\<open>null\<close> is falsy.
\<close>

definition earlyStopping :: "options \<Rightarrow> (example list \<times> number) option" where
  "earlyStopping opts =
     (case (validationData opts, earlyStoppingPatience opts) of
        (Some vdata, Some p) \<Rightarrow> if p = Fin 0 \<or> p = NaN then None else Some (vdata, p)
      | _ \<Rightarrow> None)"

text \<open>
  The body of the epoch loop of \<^verbatim>\<open>train\<close>, from \<^verbatim>\<open>trainEpoch\<close> to the early-stopping test.
  It ends in a throw, in \<^verbatim>\<open>break\<close>, or in the next values of \<^verbatim>\<open>bestValidationError\<close> and
  \<^verbatim>\<open>patienceCounter\<close>. With \<^verbatim>\<open>verbose\<close> the code also writes to the console, which has no
  effect on the network and is left out.
\<close>

datatype outcome = Throw error | Break | Continue number nat

definition epoch_body ::
  "example list \<Rightarrow> options \<Rightarrow> number \<Rightarrow> nat \<Rightarrow> network \<Rightarrow> generator
     \<Rightarrow> outcome \<times> network \<times> generator" where
  "epoch_body trainingData opts bestValidationError patienceCounter net g =
     (case trainEpoch net trainingData g of
        (Inl e, net1, g1) \<Rightarrow> (Throw e, net1, g1)
      | (Inr epochError, net1, g1) \<Rightarrow>
          (let net2 = net1\<lparr>trainingHistory := trainingHistory net1 @ [epochError]\<rparr>
           in case earlyStopping opts of
                None \<Rightarrow> (Continue bestValidationError patienceCounter, net2, g1)
              | Some (vdata, patience) \<Rightarrow>
                  (case evaluateValidation net2 vdata of
                     (Inl e, net3) \<Rightarrow> (Throw e, net3, g1)
                   | (Inr validationError, net3) \<Rightarrow>
                       if validationError < bestValidationError
                       then (Continue validationError 0, net3, g1)
                       else if patience \<le> Fin (real (patienceCounter + 1))
                         then (Break, net3, g1)
                       else (Continue bestValidationError (patienceCounter + 1), net3, g1))))"

text \<open>
  \<^verbatim>\<open>for (let epoch = 0; epoch < epochs; epoch++)\<close>. The argument \<^verbatim>\<open>epochs\<close> is a finite number,
  an integer or not: the test \<^verbatim>\<open>epoch < epochs\<close> compares the counter with it as it is, so
  that \<^verbatim>\<open>epochs = 2.5\<close> lets the epochs 0, 1 and 2 run. (With \<^verbatim>\<open>NaN\<close> no epoch runs, as with 0;
  with \<^verbatim>\<open>Infinity\<close> the loop has no bound and ends only by \<^verbatim>\<open>break\<close> or by a throw. Neither is
  an argument of the model.) The code returns \<^verbatim>\<open>this\<close>; the value returned here tells how the
  loop ended and where: \<open>(True, epoch)\<close> when it was left by \<^verbatim>\<open>break\<close> in the iteration of that
  value of the counter, \<open>(False, epoch)\<close> when \<^verbatim>\<open>epoch < epochs\<close> became false at that value.
\<close>

function train_loop ::
  "nat \<Rightarrow> real \<Rightarrow> example list \<Rightarrow> options \<Rightarrow> number \<Rightarrow> nat \<Rightarrow> network \<Rightarrow> generator
     \<Rightarrow> (error + bool \<times> nat) \<times> network \<times> generator" where
  "train_loop epoch epochs trainingData opts bestValidationError patienceCounter net g =
     (if real epoch < epochs
      then (case epoch_body trainingData opts bestValidationError patienceCounter net g of
              (Throw e, net1, g1) \<Rightarrow> (Inl e, net1, g1)
            | (Break, net1, g1) \<Rightarrow> (Inr (True, epoch), net1, g1)
            | (Continue best counter, net1, g1) \<Rightarrow>
                train_loop (epoch + 1) epochs trainingData opts best counter net1 g1)
      else (Inr (False, epoch), net, g))"
  by pat_completeness auto
termination
proof (relation "measure (\<lambda>(epoch, epochs, trainingData, opts, best, counter, net, g).
                  nat \<lceil>epochs\<rceil> - epoch)")
  show "wf (measure (\<lambda>(epoch, epochs, trainingData, opts, best, counter, net, g).
                  nat \<lceil>epochs :: real\<rceil> - (epoch :: nat)))"
    by simp
next
  fix epoch :: nat and epochs :: real
  assume "real epoch < epochs"
  then have "int epoch < \<lceil>epochs\<rceil>" by (simp add: less_ceiling_iff)
  then show "\<And>trainingData opts bestValidationError patienceCounter net g x xa xb y x21 x22 xc ya.
       ((epoch + 1, epochs, trainingData, opts, x21, x22, xc, ya),
        epoch, epochs, trainingData, opts, bestValidationError, patienceCounter, net, g)
       \<in> measure (\<lambda>(epoch, epochs, trainingData, opts, best, counter, net, g).
                  nat \<lceil>epochs\<rceil> - epoch)"
    by simp
qed

declare train_loop.simps [simp del]

definition train ::
  "network \<Rightarrow> example js_array \<Rightarrow> real \<Rightarrow> options \<Rightarrow> generator
     \<Rightarrow> (error + bool \<times> nat) \<times> network \<times> generator" where
  "train net trainingData epochs opts g =
     (case validateTrainingData trainingData of
        Some e \<Rightarrow> (Inl e, net, g)
      | None \<Rightarrow>
          (case trainingData of
             Undefined \<Rightarrow> (Inl TrainingDataEmpty, net, g)
           | Array td \<Rightarrow>
               (case prepareForTraining net td of
                  (Inl e, net1) \<Rightarrow> (Inl e, net1, g)
                | (Inr u, net1) \<Rightarrow> train_loop 0 epochs td opts PInf 0 net1 g)))"

text \<open>\<^verbatim>\<open>typeof rate !== 'number' || rate <= 0\<close>\<close>

definition setLearningRate :: "network \<Rightarrow> jsval \<Rightarrow> (error + unit) \<times> network" where
  "setLearningRate net rate =
     (case rate of
        JNumber r \<Rightarrow>
          if r \<le> Fin 0 then (Inl LearningRateInvalid, net)
          else (Inr (), net\<lparr>learningRate := r\<rparr>)
      | _ \<Rightarrow> (Inl LearningRateInvalid, net))"

definition reset :: "network \<Rightarrow> network" where
  "reset net = net\<lparr>layers := map Layer_reset (layers net), trainingHistory := []\<rparr>"

definition getTrainingHistory :: "network \<Rightarrow> number list" where
  "getTrainingHistory net = trainingHistory net"

section \<open>Sequences of calls\<close>

text \<open>
  A call of one of the methods of \<^verbatim>\<open>Network\<close> that change it, and the network and
  generator it leaves behind, whether it returns or throws.
\<close>

datatype call =
    AddLayer number "activation option" "number option"
  | Compile
  | Predict "number js_array"
  | Train "example js_array" real options
  | SetLearningRate jsval
  | Reset

fun exec :: "call \<Rightarrow> network \<times> generator \<Rightarrow> network \<times> generator" where
  "exec (AddLayer neuronCount actFn inSize) (net, g) = snd (addLayer net neuronCount actFn inSize g)"
| "exec Compile (net, g) = (snd (compile net), g)"
| "exec (Predict inputs) (net, g) = (snd (predict net inputs), g)"
| "exec (Train trainingData epochs opts) (net, g) = snd (train net trainingData epochs opts g)"
| "exec (SetLearningRate rate) (net, g) = (snd (setLearningRate net rate), g)"
| "exec Reset (net, g) = (reset net, g)"

definition run :: "call list \<Rightarrow> generator \<Rightarrow> network \<times> generator" where
  "run calls g = fold exec calls (Network_new, g)"

section \<open>Predicates of the specification\<close>



text \<open>
  The architecture of a network: the \<^verbatim>\<open>size\<close> and \<^verbatim>\<open>inputSize\<close> of its layers, in order.
\<close>

definition shape :: "layer \<Rightarrow> number \<times> number" where
  "shape l = (layer_size l, inputSize l)"

definition architecture :: "network \<Rightarrow> (number \<times> number) list" where
  "architecture net = map shape (layers net)"

section \<open>The training epoch as the specification words it\<close>

subsection \<open>The Fisher-Yates shuffle\<close>

text \<open>
  For \<open>i\<close> from the last index down to 1, an index \<open>j\<close> with \<open>0 \<le> j \<le> i\<close> is chosen at random and
  the elements at \<open>i\<close> and \<open>j\<close> are exchanged. \<open>random_index r i\<close> is the index that the draw \<open>r\<close>
  chooses for \<open>i\<close>: each of the \<open>i + 1\<close> indices has an interval of length \<open>1 / (i + 1)\<close> of
  draws. \<open>choices g n\<close> are the indices that the generator \<open>g\<close> chooses for an array of \<open>n\<close>
  elements, one draw for each of \<open>i = n - 1, \<dots>, 1\<close>, and \<open>fisher_yates\<close> makes the exchanges of
  a list of choices, the first one for the last index.
\<close>

definition random_index :: "real \<Rightarrow> nat \<Rightarrow> nat" where
  "random_index r i = nat \<lfloor>r * real (i + 1)\<rfloor>"

definition choices :: "generator \<Rightarrow> nat \<Rightarrow> nat list" where
  "choices g n = map (\<lambda>k. random_index (draw_value (g k)) (n - 1 - k)) [0..<n - 1]"

definition exchanged :: "'a list \<Rightarrow> nat \<Rightarrow> nat \<Rightarrow> 'a list" where
  "exchanged a i j = a[i := a ! j, j := a ! i]"

fun fisher_yates :: "nat list \<Rightarrow> 'a list \<Rightarrow> 'a list" where
  "fisher_yates [] a = a"
| "fisher_yates (j # js) a = fisher_yates js (exchanged a (Suc (length js)) j)"

subsection \<open>The forward pass\<close>

text \<open>
  The activation function and its derivative, of a layer that has them (the constructor of
  \<^verbatim>\<open>Layer\<close> checks that it does).
\<close>

definition func_of :: "layer \<Rightarrow> number \<Rightarrow> number" where
  "func_of l = (case func (activationFunction l) of Some f \<Rightarrow> f | None \<Rightarrow> (\<lambda>x. NaN))"

definition derivative_of :: "layer \<Rightarrow> number \<Rightarrow> number" where
  "derivative_of l = (case derivative (activationFunction l) of Some d \<Rightarrow> d | None \<Rightarrow> (\<lambda>x. NaN))"

text \<open>\<open>weightedSum = bias + \<Sum> inputs[i] * weights[i]\<close>, summed in the order of the indices.\<close>

definition weighted_sum :: "neuron \<Rightarrow> number list \<Rightarrow> number" where
  "weighted_sum n xs = foldl (+) (bias n) (map2 (*) xs (weights n))"

text \<open>
  A layer after \<^verbatim>\<open>forward(inputs)\<close>: every neuron has computed \<open>func(weightedSum)\<close> and holds
  the inputs and its output; the layer holds the outputs.
\<close>

definition layer_outputs :: "layer \<Rightarrow> number list \<Rightarrow> number list" where
  "layer_outputs l xs = map (\<lambda>n. func_of l (weighted_sum n xs)) (neurons l)"

definition layer_after_forward :: "layer \<Rightarrow> number list \<Rightarrow> layer" where
  "layer_after_forward l xs =
     l\<lparr>neurons := map (\<lambda>n. n\<lparr>lastInputs := Some xs,
                               lastOutput := Some (func_of l (weighted_sum n xs))\<rparr>) (neurons l),
       outputs := layer_outputs l xs\<rparr>"

text \<open>
  The vector goes through the layers in order. A layer rejects inputs that are not all
  finite; this is the one way in which the pass of a network as the constructors build it
  can fail (\<open>None\<close>).
\<close>

fun forward_pass :: "layer list \<Rightarrow> number list \<Rightarrow> (layer list \<times> number list) option" where
  "forward_pass [] xs = Some ([], xs)"
| "forward_pass (l # ls) xs =
     (if list_all isFinite xs
      then (case forward_pass ls (layer_outputs l xs) of
              None \<Rightarrow> None
            | Some (ls1, out) \<Rightarrow> Some (layer_after_forward l xs # ls1, out))
      else None)"

subsection \<open>The loss and the backward pass\<close>

text \<open>The mean of the squared differences of the components, summed in the order of the indices.\<close>

definition mean_squared_error :: "number list \<Rightarrow> number list \<Rightarrow> number" where
  "mean_squared_error ys ts =
     foldl (+) (Fin 0) (map2 (\<lambda>y t. Math_pow2 (y - t)) ys ts) / len ys"

text \<open>
  The delta rule: \<open>weights[i] += learningRate * delta * lastInputs[i]\<close> for every \<open>i\<close>, and
  \<open>bias += learningRate * delta\<close>. (A neuron without \<^verbatim>\<open>lastInputs\<close> has made no forward pass;
  \<^verbatim>\<open>updateWeights\<close> throws then, and it is left as it is here.)
\<close>

definition neuron_updated :: "number \<Rightarrow> number \<Rightarrow> neuron \<Rightarrow> neuron" where
  "neuron_updated rate delta n =
     (case lastInputs n of
        None \<Rightarrow> n
      | Some xs \<Rightarrow>
          n\<lparr>weights := map2 (\<lambda>w x. w + rate * delta * x) (weights n) xs,
            bias := bias n + rate * delta\<rparr>)"

definition layer_updated :: "number \<Rightarrow> number list \<Rightarrow> layer \<Rightarrow> layer" where
  "layer_updated rate deltas l =
     l\<lparr>neurons := map2 (\<lambda>n delta. neuron_updated rate delta n) (neurons l) deltas\<rparr>"

text \<open>
  The deltas of the output layer: \<open>(targets[i] - outputs[i]) * derivative(outputs[i])\<close>. The
  deltas of a hidden layer: \<open>(\<Sum>\<^sub>j nextLayerDeltas[j] * nextLayerWeights[j][i]) *
  derivative(outputs[i])\<close>, with the sum in the order of \<open>j\<close> from 0.
\<close>

definition output_deltas :: "layer \<Rightarrow> number list \<Rightarrow> number list" where
  "output_deltas l ts = map2 (\<lambda>t y. (t - y) * derivative_of l y) ts (outputs l)"

definition hidden_deltas :: "layer \<Rightarrow> number list \<Rightarrow> number list list \<Rightarrow> number list" where
  "hidden_deltas l nextLayerDeltas nextLayerWeights =
     map (\<lambda>(i, y). foldl (+) (Fin 0) (map2 (\<lambda>delta ws. delta * ws ! i) nextLayerDeltas nextLayerWeights)
                     * derivative_of l y)
       (enumerate 0 (outputs l))"

text \<open>
  The backward pass, from the output layer down to the first layer. Every layer is updated
  as soon as its deltas are known, and the deltas of the layer before it are computed from
  the weights that this update has left. \<open>backward_hidden\<close> takes the hidden layers that
  remain, the nearest to the output first, the layer after them as it was updated, and the
  deltas of that layer.
\<close>

fun backward_hidden :: "number \<Rightarrow> layer list \<Rightarrow> layer \<Rightarrow> number list \<Rightarrow> layer list" where
  "backward_hidden rate [] nextLayer deltas = []"
| "backward_hidden rate (l # others) nextLayer deltas =
     (let ds = hidden_deltas l deltas (map weights (neurons nextLayer));
          l1 = layer_updated rate ds l
      in l1 # backward_hidden rate others l1 ds)"

definition backward_pass :: "number \<Rightarrow> layer list \<Rightarrow> number list \<Rightarrow> layer list" where
  "backward_pass rate ls ts =
     (case rev ls of
        [] \<Rightarrow> []
      | outputLayer # others \<Rightarrow>
          (let ds = output_deltas outputLayer ts;
               l1 = layer_updated rate ds outputLayer
           in rev (l1 # backward_hidden rate others l1 ds)))"

subsection \<open>One example, and one pass over the examples\<close>

text \<open>
  The step of online training for one example: the forward pass on its input, the loss of
  the result against its target, and the backward pass with its target, which updates the
  weights at once. A pass takes the examples in the given order, each one on the network
  that the step before it has left; its result is the list of the losses and the last
  network.
\<close>

definition training_step :: "network \<Rightarrow> example \<Rightarrow> (number \<times> network) option" where
  "training_step net ex =
     (case (input ex, target ex) of
        (Array xs, Array ts) \<Rightarrow>
          (case forward_pass (layers net) xs of
             None \<Rightarrow> None
           | Some (ls, out) \<Rightarrow>
               Some (mean_squared_error out ts,
                     net\<lparr>layers := backward_pass (learningRate net) ls ts\<rparr>))
      | _ \<Rightarrow> None)"

fun online_pass :: "example list \<Rightarrow> network \<Rightarrow> (number list \<times> network) option" where
  "online_pass [] net = Some ([], net)"
| "online_pass (ex # rest) net =
     (case training_step net ex of
        None \<Rightarrow> None
      | Some (loss, net1) \<Rightarrow>
          (case online_pass rest net1 of
             None \<Rightarrow> None
           | Some (losses, net2) \<Rightarrow> Some (loss # losses, net2)))"

subsection \<open>Networks and examples of the right form\<close>

text \<open>
  What the constructors establish and every method keeps: a layer has at least one neuron,
  \<^verbatim>\<open>size\<close> neurons, \<^verbatim>\<open>inputSize\<close> weights in every neuron, and an activation with \<^verbatim>\<open>func\<close> and
  \<^verbatim>\<open>derivative\<close>; a network has at least one layer and its sizes are chained. A layer is
  ready for the backward pass when it also holds the caches of a forward pass. An example
  fits a network when its input and target are arrays of the network's input and output
  sizes.
\<close>

definition sizes_chained :: "layer list \<Rightarrow> bool" where
  "sizes_chained ls \<longleftrightarrow>
     (\<forall>i. i + 1 < length ls \<longrightarrow> inputSize (ls ! (i + 1)) = layer_size (ls ! i))"

definition layer_shaped :: "layer \<Rightarrow> bool" where
  "layer_shaped l \<longleftrightarrow>
     neurons l \<noteq> [] \<and> layer_size l = len (neurons l) \<and>
     (\<forall>n \<in> set (neurons l). len (weights n) = inputSize l) \<and>
     func (activationFunction l) \<noteq> None \<and> derivative (activationFunction l) \<noteq> None"

definition layer_ready :: "layer \<Rightarrow> bool" where
  "layer_ready l \<longleftrightarrow>
     layer_shaped l \<and> length (outputs l) = length (neurons l) \<and>
     (\<forall>n \<in> set (neurons l). \<exists>xs. lastInputs n = Some xs \<and> length xs = length (weights n))"

definition network_shaped :: "network \<Rightarrow> bool" where
  "network_shaped net \<longleftrightarrow>
     layers net \<noteq> [] \<and> list_all layer_shaped (layers net) \<and> sizes_chained (layers net)"

definition example_shaped :: "network \<Rightarrow> example \<Rightarrow> bool" where
  "example_shaped net ex \<longleftrightarrow>
     (\<exists>xs ts. input ex = Array xs \<and> target ex = Array ts \<and>
        len xs = inputSize (hd (layers net)) \<and> len ts = layer_size (last (layers net)))"

section \<open>Predicates of the frame and of the failing calls\<close>

text \<open>
  Two networks that differ at most inside their layers (weights, biases and caches): the
  architecture, the learning rate, the history and the compiled flag are the same.
\<close>

definition same_but_layers :: "network \<Rightarrow> network \<Rightarrow> bool" where
  "same_but_layers net net' \<longleftrightarrow>
     architecture net' = architecture net \<and> learningRate net' = learningRate net \<and>
     trainingHistory net' = trainingHistory net \<and> isCompiled net' = isCompiled net"


text \<open>
  The errors thrown by the checks that \<^verbatim>\<open>train\<close> makes before its epoch loop:
  \<^verbatim>\<open>validateTrainingData\<close>, \<^verbatim>\<open>compile\<close>, and the comparison of the architecture with the data.
\<close>

definition training_check_errors :: "error set" where
  "training_check_errors =
     {TrainingDataEmpty, ExampleFieldsMissing, InputSizesDiffer, TargetSizesDiffer,
      CompileNoLayers, NetworkInputSizeMismatch, OutputLayerSizeMismatch}"

section \<open>Concrete values\<close>

text \<open>The neuron of the specification's example, after \<^verbatim>\<open>forward([1.0, 0.5])\<close>.\<close>

definition example_neuron :: neuron where
  "example_neuron =
     \<lparr>weights = [Fin (1 / 2), Fin (- (3 / 10))], bias = Fin (1 / 10),
      lastInputs = Some [Fin 1, Fin (1 / 2)], lastOutput = Some (sigmoid_func (Fin (9 / 20)))\<rparr>"

definition fresh_neuron :: neuron where
  "fresh_neuron =
     \<lparr>weights = [Fin (1 / 2), Fin (- (3 / 10))], bias = Fin (1 / 10),
      lastInputs = None, lastOutput = None\<rparr>"

text \<open>A generator whose every draw is \<open>1/2\<close>: it initialises every weight and bias to 0.\<close>

definition half_generator :: generator where
  "half_generator = (\<lambda>i. Draw (1 / 2))"

text \<open>
  The network after \<^verbatim>\<open>addLayer(1, activations.linear, 1)\<close> under that generator: one neuron
  with weight 0 and bias 0, so that its prediction is 0 on every input.
\<close>

definition zero_neuron :: neuron where
  "zero_neuron = \<lparr>weights = [Fin 0], bias = Fin 0, lastInputs = None, lastOutput = None\<rparr>"

definition zero_layer :: layer where
  "zero_layer =
     \<lparr>neurons = [zero_neuron], activationFunction = entry linear_func linear_derivative,
      outputs = [], layer_size = Fin 1, inputSize = Fin 1\<rparr>"

definition zero_network :: network where
  "zero_network =
     \<lparr>layers = [zero_layer], learningRate = Fin (1 / 10), trainingHistory = [], isCompiled = False\<rparr>"

text \<open>Training data that the zero network already fits, and validation data that it does not.\<close>

definition fitted_data :: "example list" where
  "fitted_data = [\<lparr>input = Array [Fin 1], target = Array [Fin 0]\<rparr>]"


definition default_options :: options where
  "default_options = \<lparr>verbose = False, validationData = None, earlyStoppingPatience = None\<rparr>"


text \<open>Data whose second example has no \<^verbatim>\<open>input\<close>, and data of the wrong input size.\<close>

definition second_without_input :: "example list" where
  "second_without_input =
     [\<lparr>input = Array [Fin 1], target = Array [Fin 0]\<rparr>,
      \<lparr>input = Undefined, target = Array [Fin 0]\<rparr>]"

definition two_inputs_data :: "example list" where
  "two_inputs_data = [\<lparr>input = Array [Fin 1, Fin 2], target = Array [Fin 0]\<rparr>]"


text \<open>The zero network after one epoch of training on the data it fits.\<close>

definition trained_network :: network where
  "trained_network = fst (snd (train zero_network (Array fitted_data) 1 default_options half_generator))"

section \<open>The activation catalog: derivatives and the range of the sigmoid\<close>
























lemma exp_500_less_MAX_VALUE: "exp (500::real) < MAX_VALUE"
proof -
  have "exp (500::real) = exp 1 ^ 500"
    by (simp flip: exp_of_nat_mult)
  also have "\<dots> \<le> 3 ^ 500"
    by (rule power_mono) (auto simp: exp_le)
  also have "\<dots> < MAX_VALUE"
    unfolding MAX_VALUE_def by simp
  finally show ?thesis .
qed

lemma sigmoid_func_Fin:
  "sigmoid_func (Fin x) = Fin (1 / (1 + exp (- max (- 500) (min 500 x))))"
proof -
  have ne: "1 + exp t \<noteq> (0::real)" for t
    using exp_gt_zero[of t] by linarith
  show ?thesis
    unfolding sigmoid_func_def
    by (cases "x < - 500"; cases "500 < x") (auto simp: max_def min_def ne)
qed




text \<open>
  The exact value of \<open>1 / (1 + exp (- c))\<close> for the clamped input \<open>c = max (- 500) (min 500 x)\<close>
  lies strictly between 0 and 1, and the exact exponential is at most \<open>exp 500\<close>, which is
  below the largest finite double. What the doubles make of it is in the section on the
  sigmoid in double precision.
\<close>

lemma sigmoid_func_exact_range:
  "\<exists>c y. c = max (- 500) (min 500 x) \<and> y = 1 / (1 + exp (- c)) \<and>
     sigmoid_func (Fin x) = Fin y \<and> 0 < y \<and> y < 1 \<and>
     exp (- c) \<le> exp 500 \<and> exp 500 < MAX_VALUE"
proof -
  define c where "c = max (- 500) (min 500 x)"
  have pos: "0 < exp (- c)" by simp
  have "- c \<le> 500" unfolding c_def by (simp add: max_def min_def)
  then have le: "exp (- c) \<le> exp 500" by simp
  have "0 < 1 / (1 + exp (- c))" using pos by (simp add: add_pos_pos)
  moreover have "1 / (1 + exp (- c)) < 1" using pos by (simp add: add_pos_pos)
  ultimately show ?thesis
    using le exp_500_less_MAX_VALUE sigmoid_func_Fin[of x] unfolding c_def by blast
qed

section \<open>The sigmoid in double precision\<close>

subsection \<open>Rounding to the nearest double\<close>

lemma round_half_even_bounds:
  "q - 1 / 2 \<le> of_int (round_half_even q)" "of_int (round_half_even q) \<le> q + 1 / 2"
  unfolding round_half_even_def Let_def by (auto; linarith)+

lemma round_half_even_ge: "of_int N \<le> q \<Longrightarrow> N \<le> round_half_even q"
  unfolding round_half_even_def Let_def by (auto simp: le_floor_iff) (linarith+)?

lemma round_half_even_le: "q \<le> of_int N \<Longrightarrow> round_half_even q \<le> N"
proof (cases "q = of_int N")
  case True
  then show ?thesis by (simp add: round_half_even_def)
next
  case False
  assume "q \<le> of_int N"
  with False have "q < of_int N" by simp
  then have "\<lfloor>q\<rfloor> < N" by (simp add: floor_less_iff)
  then show ?thesis unfolding round_half_even_def Let_def by auto
qed

lemma round_half_even_near:
  assumes "of_int N \<le> q" "q \<le> of_int N + 1 / 2" "even N"
  shows "round_half_even q = N"
proof -
  have "\<lfloor>q\<rfloor> = N" using assms(1,2) by (intro floor_unique) auto
  then show ?thesis using assms unfolding round_half_even_def Let_def by auto
qed

lemma binade:
  assumes "0 < x"
  shows "2 powr of_int \<lfloor>log 2 x\<rfloor> \<le> x" "x < 2 powr (of_int \<lfloor>log 2 x\<rfloor> + 1)"
proof -
  have "2 powr of_int \<lfloor>log 2 x\<rfloor> \<le> 2 powr (log 2 x)"
    by (intro powr_mono) auto
  then show "2 powr of_int \<lfloor>log 2 x\<rfloor> \<le> x" using assms by simp
  have "2 powr (log 2 x) < 2 powr (of_int \<lfloor>log 2 x\<rfloor> + 1)"
    by (intro powr_less_mono) auto
  then show "x < 2 powr (of_int \<lfloor>log 2 x\<rfloor> + 1)" using assms by simp
qed

lemma MAX_VALUE_ge: "2 powr 1023 \<le> MAX_VALUE"
proof -
  have "(2::real) powr 1023 = 2 ^ 1023" by (simp add: powr_numeral)
  also have "\<dots> \<le> MAX_VALUE" unfolding MAX_VALUE_def by simp
  finally show ?thesis .
qed

lemma round_double_binade:
  assumes "2 powr (- 1022) \<le> x" "k = \<lfloor>log 2 x\<rfloor>" "k \<le> 1022"
  shows "\<exists>r. round_double x = Fin r \<and> 2 powr of_int k \<le> r \<and> r \<le> 2 powr (of_int k + 1) \<and>
           \<bar>r - x\<bar> \<le> 2 powr (of_int k - 53)"
proof -
  have x: "0 < x" using assms(1) by (smt (verit) powr_gt_zero)
  have "- 1022 \<le> log 2 x"
    using assms(1) x by (simp add: le_log_iff)
  then have k: "- 1022 \<le> k" unfolding assms(2) by (simp add: le_floor_iff)
  have "\<bar>x\<bar> = x" using x by simp
  then have "max \<lfloor>log 2 \<bar>x\<bar>\<rfloor> (- 1022) = k" using k assms(2) by simp
  then have u: "ulp x = 2 powr (of_int k - 52)"
    unfolding ulp_def by simp
  define q where "q = x / ulp x"
  define n where "n = round_half_even q"
  have up: "0 < ulp x" by (simp add: u)
  from binade[OF x] have b: "2 powr of_int k \<le> x" "x < 2 powr (of_int k + 1)"
    by (simp_all add: assms(2))
  have p52: "2 powr of_int k / ulp x = 2 ^ 52"
    by (simp add: u flip: powr_diff powr_numeral)
  have p53: "2 powr (of_int k + 1) / ulp x = 2 ^ 53"
  proof -
    have "2 powr (of_int k + 1) / ulp x = 2 powr (53::real)"
      by (simp add: u flip: powr_diff)
    then show ?thesis by (simp add: powr_numeral)
  qed
  have q1: "2 ^ 52 \<le> q"
    unfolding q_def using b(1) up p52 by (metis divide_right_mono less_imp_le)
  have q2: "q \<le> 2 ^ 53"
    unfolding q_def using b(2) up p53 by (metis divide_right_mono less_imp_le)
  have "of_int (2 ^ 52 :: int) \<le> q" using q1 by simp
  then have n1: "2 ^ 52 \<le> n" unfolding n_def by (rule round_half_even_ge)
  have "q \<le> of_int (2 ^ 53 :: int)" using q2 by simp
  then have n2: "n \<le> 2 ^ 53" unfolding n_def by (rule round_half_even_le)
  define r where "r = of_int n * ulp x"
  have r1: "2 powr of_int k \<le> r"
  proof -
    have "2 powr of_int k = 2 ^ 52 * ulp x" using p52 up by (simp add: field_simps)
    also have "\<dots> \<le> of_int n * ulp x"
      using n1 up by (intro mult_right_mono) (auto simp: of_int_le_iff[symmetric] simp del: of_int_le_iff)
    finally show ?thesis by (simp add: r_def)
  qed
  have r2: "r \<le> 2 powr (of_int k + 1)"
  proof -
    have "of_int n * ulp x \<le> 2 ^ 53 * ulp x"
      using n2 up by (intro mult_right_mono) (auto simp: of_int_le_iff[symmetric] simp del: of_int_le_iff)
    also have "\<dots> = 2 powr (of_int k + 1)" using p53 up by (simp add: field_simps)
    finally show ?thesis by (simp add: r_def)
  qed
  have e: "\<bar>r - x\<bar> \<le> 2 powr (of_int k - 53)"
  proof -
    have "\<bar>of_int n - q\<bar> \<le> 1 / 2"
      using round_half_even_bounds[of q] unfolding n_def by linarith
    then have "\<bar>of_int n - q\<bar> * ulp x \<le> 1 / 2 * ulp x"
      using up by (intro mult_right_mono) auto
    moreover have "\<bar>of_int n - q\<bar> * ulp x = \<bar>r - x\<bar>"
      using up by (simp add: r_def q_def abs_mult[symmetric] left_diff_distrib del: abs_mult)
         (simp add: abs_mult[symmetric] field_simps)
    moreover have "1 / 2 * ulp x = 2 powr (of_int k - 53)"
      by (simp add: u powr_diff)
    ultimately show ?thesis by simp
  qed
  have "(2::real) powr (of_int k + 1) \<le> 2 powr 1023"
    using assms(3) by (intro powr_mono) auto
  with r2 MAX_VALUE_ge have "r \<le> MAX_VALUE" by linarith
  moreover have "0 < r" using r1 by (smt (verit) powr_gt_zero)
  ultimately have "round_double x = Fin r"
    using x by (simp add: round_double_def Let_def r_def n_def q_def)
  with r1 r2 e show ?thesis by blast
qed

text \<open>
  Rounding keeps a number between the powers of two around it, and moves it by at most the
  relative distance \<open>2\<^sup>-\<^sup>5\<^sup>3\<close>.
\<close>

lemma round_double_between:
  assumes "- 1022 \<le> a" "b \<le> 1023" "2 powr of_int a \<le> x" "x \<le> 2 powr of_int b"
  shows "\<exists>r. round_double x = Fin r \<and> 2 powr of_int a \<le> r \<and> r \<le> 2 powr of_int b \<and>
           \<bar>r - x\<bar> \<le> x / 2 ^ 53"
proof -
  define k where "k = \<lfloor>log 2 x\<rfloor>"
  have x: "0 < x" using assms(3) by (smt (verit) powr_gt_zero)
  have "of_int a \<le> log 2 x" using assms(3) x by (simp add: le_log_iff)
  then have ak: "a \<le> k" unfolding k_def by (simp add: le_floor_iff)
  have "log 2 x \<le> of_int b" using assms(4) x by (simp add: log_le_iff)
  then have kb: "k \<le> b" unfolding k_def by (metis floor_mono floor_of_int)
  have lo: "2 powr (- 1022) \<le> x"
  proof -
    have "(2::real) powr (- 1022) \<le> 2 powr of_int a"
      using assms(1) by (intro powr_mono) auto
    with assms(3) show ?thesis by linarith
  qed
  from binade[OF x] have bk: "2 powr of_int k \<le> x" by (simp add: k_def)
  have err: "2 powr (of_int k - 53) \<le> x / 2 ^ 53"
  proof -
    have "(2::real) powr (of_int k - 53) = 2 powr of_int k / 2 powr 53" by (simp add: powr_diff)
    also have "\<dots> = 2 powr of_int k / 2 ^ 53" by (simp add: powr_numeral)
    also have "\<dots> \<le> x / 2 ^ 53" using bk by (simp add: divide_right_mono)
    finally show ?thesis .
  qed
  show ?thesis
  proof (cases "k = b")
    case True
    with bk assms(4) have xb: "x = 2 powr of_int b" by simp
    have u: "ulp x = 2 powr (of_int k - 52)"
    proof -
      have "\<bar>x\<bar> = x" using x by simp
      moreover have "- 1022 \<le> k" using ak assms(1) by linarith
      ultimately have "max \<lfloor>log 2 \<bar>x\<bar>\<rfloor> (- 1022) = k" using k_def by simp
      then show ?thesis unfolding ulp_def by simp
    qed
    have "2 powr of_int b / 2 powr (of_int b - 52) = (2::real) powr 52"
      by (simp flip: powr_diff)
    then have q: "x / ulp x = of_int (2 ^ 52)"
      unfolding u xb[symmetric] True[symmetric] using xb True by (simp add: powr_numeral)
    have "round_half_even (x / ulp x) = 2 ^ 52"
      unfolding q by (intro round_half_even_near) auto
    then have "of_int (round_half_even (x / ulp x)) * ulp x = x"
      using q u by (simp add: field_simps)
    moreover have "x \<le> MAX_VALUE"
    proof -
      have "(2::real) powr of_int b \<le> 2 powr 1023" using assms(2) by (intro powr_mono) auto
      with xb MAX_VALUE_ge show ?thesis by linarith
    qed
    ultimately have "round_double x = Fin x"
      using x by (simp add: round_double_def Let_def)
    with xb assms(3) x show ?thesis by simp
  next
    case False
    with kb have k: "k + 1 \<le> b" by simp
    with assms(2) have "k \<le> 1022" by simp
    from round_double_binade[OF lo k_def this] obtain r where
      r: "round_double x = Fin r" "2 powr of_int k \<le> r" "r \<le> 2 powr (of_int k + 1)"
         "\<bar>r - x\<bar> \<le> 2 powr (of_int k - 53)"
      by blast
    have "(2::real) powr of_int a \<le> 2 powr of_int k" using ak by (intro powr_mono) auto
    moreover have "(2::real) powr (of_int k + 1) \<le> 2 powr of_int b"
      using k by (intro powr_mono) (auto simp: of_int_le_iff[symmetric] simp del: of_int_le_iff)
    ultimately show ?thesis using r err by (intro exI[of _ r]) linarith
  qed
qed

lemma round_double_one_plus:
  assumes "0 \<le> e" "e \<le> 1 / 2 ^ 53"
  shows "round_double (1 + e) = Fin 1"
proof -
  define x where "x = 1 + e"
  have x: "1 \<le> x" "x < 2"
    using assms by (simp_all add: x_def) (smt (verit) power_one_over one_less_numeral_iff power_less_one_iff semiring_norm(76) zero_le_numeral)?
  then have "0 \<le> log 2 x" "log 2 x < 1" by (simp_all add: log_less_iff)
  then have "\<lfloor>log 2 x\<rfloor> = 0" by (intro floor_unique) auto
  moreover have "\<bar>x\<bar> = x" using x by simp
  ultimately have u: "ulp x = 2 powr (- 52)" by (simp add: ulp_def)
  then have u': "ulp x = 1 / 2 ^ 52" by (simp add: powr_minus powr_numeral inverse_eq_divide)
  have q: "x / ulp x = 2 ^ 52 + e * 2 ^ 52" unfolding u' by (simp add: x_def algebra_simps)
  have "e * 2 ^ 52 \<le> 1 / 2 ^ 53 * 2 ^ 52" using assms(2) by (intro mult_right_mono) auto
  then have h: "e * 2 ^ 52 \<le> 1 / 2" by simp
  have "round_half_even (x / ulp x) = 2 ^ 52"
    unfolding q using assms(1) h by (intro round_half_even_near) auto
  then have "of_int (round_half_even (x / ulp x)) * ulp x = 1" by (simp add: u')
  moreover have "1 \<le> MAX_VALUE" unfolding MAX_VALUE_def by simp
  ultimately show ?thesis
    using x unfolding x_def[symmetric] by (simp add: round_double_def Let_def)
qed

subsection \<open>The exponential inside the clamp\<close>

lemma exp_1_lower: "(27 / 10 :: real) \<le> exp 1"
proof -
  have "(145 / 128 :: real) \<le> exp (1 / 8)"
    using exp_lower_Taylor_quadratic[of "1 / 8 :: real"] by (simp add: power2_eq_square)
  then have "(145 / 128 :: real) ^ 8 \<le> exp (1 / 8) ^ 8"
    by (intro power_mono) auto
  also have "exp (1 / 8 :: real) ^ 8 = exp 1"
    by (simp flip: exp_of_nat_mult)
  finally have "(145 / 128 :: real) ^ 8 \<le> exp 1" .
  moreover have "(27 / 10 :: real) \<le> (145 / 128) ^ 8"
    by (simp add: power_divide divide_simps)
  ultimately show ?thesis by linarith
qed

text \<open>\<open>exp 37\<close> is above \<open>2\<^sup>5\<^sup>3 + 2\<close>, so that \<open>exp (- 37) (1 + 2\<^sup>-\<^sup>5\<^sup>2) \<le> 2\<^sup>-\<^sup>5\<^sup>3\<close>.\<close>

lemma exp_37_lower: "2 ^ 53 + 2 \<le> exp (37::real)"
proof -
  have "(2 ^ 53 + 2 :: real) \<le> (27 / 10) ^ 37"
    by (simp add: power_divide divide_simps)
  also have "\<dots> \<le> exp 1 ^ 37"
    using exp_1_lower by (intro power_mono) auto
  also have "\<dots> = exp 37"
    by (simp flip: exp_of_nat_mult)
  finally show ?thesis .
qed

lemma exp_500_upper: "exp (500::real) \<le> 2 powr 793"
proof -
  have "exp (500::real) = exp 1 ^ 500"
    by (simp flip: exp_of_nat_mult)
  also have "\<dots> \<le> 3 ^ 500"
    by (rule power_mono) (auto simp: exp_le)
  also have "\<dots> \<le> (2::real) ^ 793" by simp
  also have "\<dots> = 2 powr 793" by (simp add: powr_numeral)
  finally show ?thesis .
qed

lemma exp_clamped_bounds:
  assumes "- 500 \<le> t" "t \<le> (500::real)"
  shows "2 powr (- 793) \<le> exp t" "exp t \<le> 2 powr 793"
proof -
  have "exp t \<le> exp 500" using assms(2) by simp
  with exp_500_upper show "exp t \<le> 2 powr 793" by linarith
  have "exp (- t) \<le> exp 500" using assms(1) by simp
  with exp_500_upper have "exp (- t) \<le> 2 powr 793" by linarith
  then have "inverse (2 powr 793) \<le> inverse (exp (- t))"
    by (intro le_imp_inverse_le) auto
  then show "2 powr (- 793) \<le> exp t"
    by (simp add: powr_minus exp_minus)
qed

lemma Math_exp_double_clamped:
  assumes "Math_exp_accurate E" "- 500 \<le> t" "t \<le> 500"
  shows "\<exists>e. Math_exp_double E (Fin t) = Fin e \<and> 2 powr (- 794) \<le> e \<and> e \<le> 2 powr 794 \<and>
           (t \<le> - 37 \<longrightarrow> e \<le> 1 / 2 ^ 53)"
proof -
  from assms have a: "\<bar>E t - exp t\<bar> \<le> exp t / 2 ^ 52" by (simp add: Math_exp_accurate_def)
  have p: "0 < exp t" by simp
  have "exp t / 2 ^ 52 \<le> exp t / 2" using p by (intro divide_left_mono) auto
  with a have lo: "exp t / 2 \<le> E t" and hi: "E t \<le> 2 * exp t" by linarith+
  have l: "2 powr of_int (- 794) \<le> E t"
  proof -
    have "(2::real) powr of_int (- 794) = 2 powr (- 793) / 2"
      by (simp add: powr_minus)
    also have "\<dots> \<le> exp t / 2" using exp_clamped_bounds(1)[OF assms(2,3)] by simp
    finally show ?thesis using lo by linarith
  qed
  have h: "E t \<le> 2 powr of_int 794"
  proof -
    have "2 * exp t \<le> 2 * 2 powr 793" using exp_clamped_bounds(2)[OF assms(2,3)] by simp
    also have "\<dots> = 2 powr of_int 794" by (simp add: powr_numeral)
    finally show ?thesis using hi by linarith
  qed
  from round_double_between[OF _ _ l h] obtain e where
    e: "round_double (E t) = Fin e" "2 powr of_int (- 794) \<le> e" "e \<le> 2 powr of_int 794"
    by auto
  have "e \<le> 1 / 2 ^ 53" if t: "t \<le> - 37"
  proof -
    have "exp t \<le> exp (- 37)" using t by simp
    also have "\<dots> = 1 / exp 37" by (simp add: exp_minus inverse_eq_divide)
    also have "\<dots> \<le> 1 / (2 ^ 53 + 2)" using exp_37_lower by (intro divide_left_mono) auto
    finally have x: "exp t \<le> 1 / (2 ^ 53 + 2)" .
    from a have "E t \<le> exp t + exp t / 2 ^ 52" by linarith
    also have "\<dots> = exp t * (1 + 1 / 2 ^ 52)" by (simp add: distrib_left)
    also have "\<dots> \<le> 1 / (2 ^ 53 + 2) * (1 + 1 / 2 ^ 52)" using x by (intro mult_right_mono) auto
    also have "\<dots> = 1 / 2 ^ 53" by simp
    also have "\<dots> = 2 powr of_int (- 53)" by (simp add: powr_minus powr_numeral inverse_eq_divide)
    finally have h53: "E t \<le> 2 powr of_int (- 53)" .
    from round_double_between[OF _ _ l h53] e(1) have "e \<le> 2 powr of_int (- 53)" by auto
    then show ?thesis by (simp add: powr_minus powr_numeral inverse_eq_divide)
  qed
  with e show ?thesis by (auto simp: Math_exp_double_def)
qed

lemma clamp_Fin:
  "Math_max (Fin (- 500)) (Math_min (Fin 500) (Fin x)) = Fin (max (- 500) (min 500 x))"
  by (cases "x < - 500"; cases "500 < x") (auto simp: max_def min_def)

lemma sigmoid_func_double_value:
  assumes "Math_exp_accurate E"
  shows "\<exists>e s y. Math_exp_double E (Fin (- max (- 500) (min 500 x))) = Fin e \<and>
           0 < e \<and> e < MAX_VALUE \<and>
           plus_double (Fin 1) (Fin e) = Fin s \<and> 1 \<le> s \<and> s < MAX_VALUE \<and>
           divide_double (Fin 1) (Fin s) = Fin y \<and>
           sigmoid_func_double E (Fin x) = Fin y \<and> 0 < y \<and> y \<le> 1 \<and>
           (37 \<le> x \<longrightarrow> s = 1 \<and> y = 1)"
proof -
  define c where "c = max (- 500) (min 500 x)"
  have c: "- 500 \<le> - c" "- c \<le> 500" by (simp_all add: c_def max_def min_def)
  from Math_exp_double_clamped[OF assms c] obtain e where
    e: "Math_exp_double E (Fin (- c)) = Fin e" "2 powr (- 794) \<le> e" "e \<le> 2 powr 794"
       "- c \<le> - 37 \<longrightarrow> e \<le> 1 / 2 ^ 53"
    by blast
  have e0: "0 < e" using e(2) by (smt (verit) powr_gt_zero)
  have big: "(2::real) powr 795 < MAX_VALUE"
  proof -
    have "(2::real) powr 795 < 2 powr 1023" by (intro powr_less_mono) auto
    with MAX_VALUE_ge show ?thesis by linarith
  qed
  have "(2::real) powr 794 \<le> 2 powr 795" by (intro powr_mono) auto
  with e(3) big have eM: "e < MAX_VALUE" by linarith
  have l1: "2 powr of_int 0 \<le> 1 + e" using e0 by simp
  have h1: "1 + e \<le> 2 powr of_int 795"
  proof -
    have "(1::real) \<le> 2 powr 794" by (simp add: powr_numeral)
    then have "1 + e \<le> 2 * 2 powr 794" using e(3) by linarith
    also have "\<dots> = 2 powr of_int 795" by (simp add: powr_numeral)
    finally show ?thesis .
  qed
  from round_double_between[OF _ _ l1 h1] obtain s where
    s: "round_double (1 + e) = Fin s" "1 \<le> s" "s \<le> 2 powr 795"
    by auto
  have s0: "0 < s" "s \<noteq> 0" using s(2) by simp_all
  have sM: "s < MAX_VALUE" using s(3) big by linarith
  have l2: "2 powr of_int (- 795) \<le> 1 / s"
  proof -
    have "inverse (2 powr 795) \<le> inverse s" using s(3) s0 by (intro le_imp_inverse_le) auto
    then show ?thesis by (simp add: powr_minus inverse_eq_divide)
  qed
  have h2: "1 / s \<le> 2 powr of_int 0" using s(2) by simp
  from round_double_between[OF _ _ l2 h2] obtain y where
    y: "round_double (1 / s) = Fin y" "2 powr (- 795) \<le> y" "y \<le> 1"
    by auto
  have y0: "0 < y" using y(2) by (smt (verit) powr_gt_zero)
  have p: "plus_double (Fin 1) (Fin e) = Fin s" by (simp add: plus_double_def s(1))
  have d: "divide_double (Fin 1) (Fin s) = Fin y" using s0 by (simp add: divide_double_def y(1))
  have v: "sigmoid_func_double E (Fin x) = Fin y"
    unfolding sigmoid_func_double_def clamp_Fin c_def[symmetric] using e(1) p d by simp
  have one: "s = 1 \<and> y = 1" if "37 \<le> x"
  proof -
    from that have "37 \<le> c" by (simp add: c_def max_def min_def)
    with e(4) have "e \<le> 1 / 2 ^ 53" by simp
    from round_double_one_plus[OF less_imp_le[OF e0] this] s(1) have "s = 1" by simp
    moreover from round_double_one_plus[of 0] have "round_double 1 = Fin 1" by simp
    ultimately show ?thesis using y(1) by simp
  qed
  from e(1) e0 eM p s(2) sM d v y0 y(3) one show ?thesis
    unfolding c_def by blast
qed

lemma abs_relative:
  fixes a b d :: real
  assumes "\<bar>a - b\<bar> \<le> b / d"
  shows "a \<le> b * (1 + 1 / d)" "b * (1 - 1 / d) \<le> a"
proof -
  from assms have "a \<le> b + b / d" "b - b / d \<le> a" by linarith+
  then show "a \<le> b * (1 + 1 / d)" "b * (1 - 1 / d) \<le> a"
    by (simp_all add: distrib_left right_diff_distrib)
qed

lemma sigmoid_func_double_accuracy:
  assumes "Math_exp_accurate E"
  shows "\<exists>y. sigmoid_func_double E (Fin x) = Fin y \<and>
           \<bar>y - 1 / (1 + exp (- max (- 500) (min 500 x)))\<bar> \<le>
             1 / (1 + exp (- max (- 500) (min 500 x))) / 2 ^ 50"
proof -
  define c where "c = max (- 500) (min 500 x)"
  define X where "X = exp (- c)"
  define \<sigma> where "\<sigma> = 1 / (1 + X)"
  have c: "- 500 \<le> - c" "- c \<le> 500" by (simp_all add: c_def max_def min_def)
  have X: "0 < X" by (simp add: X_def)
  have \<sigma>: "0 < \<sigma>" using X by (simp add: \<sigma>_def add_pos_pos)
  from assms c have a: "\<bar>E (- c) - X\<bar> \<le> X / 2 ^ 52" by (simp add: Math_exp_accurate_def X_def)
  have p: "0 < exp (- c)" by simp
  have "X / 2 ^ 52 \<le> X / 2" using X by (intro divide_left_mono) auto
  with a have lo: "X / 2 \<le> E (- c)" and hi: "E (- c) \<le> 2 * X" by linarith+
  have E0: "0 < E (- c)" using lo X by linarith
  have l: "2 powr of_int (- 794) \<le> E (- c)"
  proof -
    have "(2::real) powr of_int (- 794) = 2 powr (- 793) / 2"
      by (simp add: powr_minus)
    also have "\<dots> \<le> X / 2" using exp_clamped_bounds(1)[OF c] by (simp add: X_def)
    finally show ?thesis using lo by linarith
  qed
  have h: "E (- c) \<le> 2 powr of_int 794"
  proof -
    have "2 * X \<le> 2 * 2 powr 793" using exp_clamped_bounds(2)[OF c] by (simp add: X_def)
    also have "\<dots> = 2 powr of_int 794" by (simp add: powr_numeral)
    finally show ?thesis using hi by linarith
  qed
  from round_double_between[OF _ _ l h] obtain e where
    e: "round_double (E (- c)) = Fin e" "2 powr of_int (- 794) \<le> e" "e \<le> 2 powr of_int 794"
       "\<bar>e - E (- c)\<bar> \<le> E (- c) / 2 ^ 53"
    by auto
  have e0: "0 < e" using e(2) by (smt (verit) powr_gt_zero)
  have e_hi: "e \<le> X * (1 + 1 / 2 ^ 51)"
  proof -
    from abs_relative(1)[OF e(4)] have "e \<le> E (- c) * (1 + 1 / 2 ^ 53)" .
    also have "\<dots> \<le> (X * (1 + 1 / 2 ^ 52)) * (1 + 1 / 2 ^ 53)"
      using abs_relative(1)[OF a] by (intro mult_right_mono) simp_all
    also have "\<dots> = X * ((1 + 1 / 2 ^ 52) * (1 + 1 / 2 ^ 53))" by simp
    also have "\<dots> \<le> X * (1 + 1 / 2 ^ 51)"
      using X by (intro mult_left_mono) simp_all
    finally show ?thesis .
  qed
  have e_lo: "X * (1 - 1 / 2 ^ 51) \<le> e"
  proof -
    have "X * (1 - 1 / 2 ^ 51) \<le> X * ((1 - 1 / 2 ^ 52) * (1 - 1 / 2 ^ 53))"
      using X by (intro mult_left_mono) simp_all
    also have "\<dots> = (X * (1 - 1 / 2 ^ 52)) * (1 - 1 / 2 ^ 53)" by simp
    also have "\<dots> \<le> E (- c) * (1 - 1 / 2 ^ 53)"
      using abs_relative(2)[OF a] by (intro mult_right_mono) simp_all
    also have "\<dots> \<le> e" by (rule abs_relative(2)[OF e(4)])
    finally show ?thesis .
  qed
  have se_hi: "1 + e \<le> (1 + X) * (1 + 1 / 2 ^ 51)"
    using e_hi X by (simp add: distrib_left distrib_right)
  have se_lo: "(1 + X) * (1 - 1 / 2 ^ 51) \<le> 1 + e"
  proof -
    have "(1 + X) * (1 - 1 / 2 ^ 51) = (1 - 1 / 2 ^ 51) + X * (1 - 1 / 2 ^ 51)"
      by (simp add: distrib_right)
    also have "\<dots> \<le> 1 + e" using e_lo by simp
    finally show ?thesis .
  qed
  have l1: "2 powr of_int 0 \<le> 1 + e" using e0 by simp
  have h1: "1 + e \<le> 2 powr of_int 795"
  proof -
    have "(1::real) \<le> 2 powr 794" by (simp add: powr_numeral)
    then have "1 + e \<le> 2 * 2 powr 794" using e(3) by simp
    also have "\<dots> = 2 powr of_int 795" by (simp add: powr_numeral)
    finally show ?thesis .
  qed
  from round_double_between[OF _ _ l1 h1] obtain s where
    s: "round_double (1 + e) = Fin s" "1 \<le> s" "s \<le> 2 powr 795"
       "\<bar>s - (1 + e)\<bar> \<le> (1 + e) / 2 ^ 53"
    by auto
  have s0: "0 < s" "s \<noteq> 0" using s(2) by simp_all
  define lo1 :: real where "lo1 = (1 - 1 / 2 ^ 51) * (1 - 1 / 2 ^ 53)"
  define hi1 :: real where "hi1 = (1 + 1 / 2 ^ 51) * (1 + 1 / 2 ^ 53)"
  have lo1: "0 < lo1" by (simp add: lo1_def)
  have hi1: "0 < hi1" by (simp add: hi1_def)
  have s_hi: "s \<le> (1 + X) * hi1"
  proof -
    from abs_relative(1)[OF s(4)] have "s \<le> (1 + e) * (1 + 1 / 2 ^ 53)" .
    also have "\<dots> \<le> ((1 + X) * (1 + 1 / 2 ^ 51)) * (1 + 1 / 2 ^ 53)"
      using se_hi by (intro mult_right_mono) simp_all
    finally show ?thesis by (simp add: hi1_def mult.assoc)
  qed
  have s_lo: "(1 + X) * lo1 \<le> s"
  proof -
    have "(1 + X) * lo1 = ((1 + X) * (1 - 1 / 2 ^ 51)) * (1 - 1 / 2 ^ 53)"
      by (simp add: lo1_def mult.assoc)
    also have "\<dots> \<le> (1 + e) * (1 - 1 / 2 ^ 53)"
      using se_lo by (intro mult_right_mono) simp_all
    also have "\<dots> \<le> s" by (rule abs_relative(2)[OF s(4)])
    finally show ?thesis .
  qed
  have l2: "2 powr of_int (- 795) \<le> 1 / s"
  proof -
    have "inverse (2 powr 795) \<le> inverse s" using s(3) s0 by (intro le_imp_inverse_le) auto
    then show ?thesis by (simp add: powr_minus inverse_eq_divide)
  qed
  have h2: "1 / s \<le> 2 powr of_int 0" using s(2) by simp
  from round_double_between[OF _ _ l2 h2] obtain y where
    y: "round_double (1 / s) = Fin y" "\<bar>y - 1 / s\<bar> \<le> 1 / s / 2 ^ 53"
    by auto
  have pX: "0 < 1 + X" using X by simp
  have inv_hi: "1 / s \<le> \<sigma> / lo1"
  proof -
    have "1 / s \<le> 1 / ((1 + X) * lo1)"
      using s_lo pX lo1 by (intro divide_left_mono) (auto intro!: mult_pos_pos s0)
    then show ?thesis by (simp add: \<sigma>_def)
  qed
  have inv_lo: "\<sigma> / hi1 \<le> 1 / s"
  proof -
    have "1 / ((1 + X) * hi1) \<le> 1 / s"
      using s_hi pX hi1 s0 by (intro divide_left_mono) (auto intro!: mult_pos_pos)
    then show ?thesis by (simp add: \<sigma>_def)
  qed
  have y_hi: "y \<le> \<sigma> * (1 + 1 / 2 ^ 50)"
  proof -
    from abs_relative(1)[OF y(2)] have "y \<le> 1 / s * (1 + 1 / 2 ^ 53)" .
    also have "\<dots> \<le> \<sigma> / lo1 * (1 + 1 / 2 ^ 53)"
      using inv_hi by (intro mult_right_mono) simp_all
    also have "\<dots> = \<sigma> * ((1 + 1 / 2 ^ 53) / lo1)" by simp
    also have "\<dots> \<le> \<sigma> * (1 + 1 / 2 ^ 50)"
      using \<sigma> by (intro mult_left_mono) (simp_all add: lo1_def)
    finally show ?thesis .
  qed
  have y_lo: "\<sigma> * (1 - 1 / 2 ^ 50) \<le> y"
  proof -
    have "\<sigma> * (1 - 1 / 2 ^ 50) \<le> \<sigma> * ((1 - 1 / 2 ^ 53) / hi1)"
      using \<sigma> by (intro mult_left_mono) (simp_all add: hi1_def)
    also have "\<dots> = \<sigma> / hi1 * (1 - 1 / 2 ^ 53)" by simp
    also have "\<dots> \<le> 1 / s * (1 - 1 / 2 ^ 53)"
      using inv_lo by (intro mult_right_mono) simp_all
    also have "\<dots> \<le> y" by (rule abs_relative(2)[OF y(2)])
    finally show ?thesis .
  qed
  have "y \<le> \<sigma> + \<sigma> / 2 ^ 50" "\<sigma> - \<sigma> / 2 ^ 50 \<le> y"
    using y_hi y_lo by (simp_all add: distrib_left right_diff_distrib)
  then have "\<bar>y - \<sigma>\<bar> \<le> \<sigma> / 2 ^ 50" by linarith
  moreover have "sigmoid_func_double E (Fin x) = Fin y"
    unfolding sigmoid_func_double_def clamp_Fin c_def[symmetric]
    using e(1) s(1) y(1) s0 by (simp add: Math_exp_double_def plus_double_def divide_double_def)
  ultimately show ?thesis unfolding \<sigma>_def X_def c_def by blast
qed

text \<open>
  C10, as stated, fails: in doubles \<open>1 + Math.exp(-37)\<close> is 1, because \<open>exp (- 37)\<close> is below
  half of the distance \<open>2\<^sup>-\<^sup>5\<^sup>2\<close> from 1 to the next double, and \<^verbatim>\<open>sigmoid.func(37)\<close> is \<open>1 / 1 = 1\<close>,
  which is not inside \<open>(0, 1)\<close>. The same holds for \<^verbatim>\<open>sigmoid.func(1000)\<close>, which the test suite
  calls. (Here with the correctly rounded exponential; the theorem below has every accurate
  one.)
\<close>

lemma Math_exp_accurate_exp: "Math_exp_accurate exp"
  by (simp add: Math_exp_accurate_def)

theorem sigmoid_reaches_one_counterexample:
  "(\<exists>y. sigmoid_func_double exp (Fin 37) = Fin y \<and> \<not> (0 < y \<and> y < 1)) \<and>
   (\<exists>y. sigmoid_func_double exp (Fin 1000) = Fin y \<and> \<not> (0 < y \<and> y < 1))"
  using sigmoid_func_double_value[OF Math_exp_accurate_exp, of 37]
    sigmoid_func_double_value[OF Math_exp_accurate_exp, of 1000]
  by auto

text \<open>
  C10, amended: on every real input \<open>x\<close>, \<^verbatim>\<open>sigmoid.func\<close> computes \<open>1 / (1 + exp (- c))\<close> in
  double arithmetic, for the clamped input \<open>c = max (- 500) (min 500 x)\<close>. With a \<^verbatim>\<open>Math.exp\<close>
  that is accurate inside the clamp, the exponential \<open>e\<close> and the sum \<open>s = 1 + e\<close> are finite
  doubles (nothing overflows), the result \<open>y\<close> is the rounded quotient \<open>1 / s\<close>, it is within
  the relative distance \<open>2\<^sup>-\<^sup>5\<^sup>0\<close> of \<open>1 / (1 + exp (- c))\<close>, and it lies in \<open>(0, 1]\<close>: above 0
  always, and equal to 1 for every \<open>x \<ge> 37\<close>.
\<close>

theorem sigmoid_func_double_range:
  assumes "Math_exp_accurate E"
  shows "\<exists>c e s y.
     c = max (- 500) (min 500 x) \<and>
     Math_exp_double E (Fin (- c)) = Fin e \<and> 0 < e \<and> e < MAX_VALUE \<and>
     plus_double (Fin 1) (Fin e) = Fin s \<and> 1 \<le> s \<and> s < MAX_VALUE \<and>
     divide_double (Fin 1) (Fin s) = Fin y \<and>
     sigmoid_func_double E (Fin x) = Fin y \<and>
     \<bar>y - 1 / (1 + exp (- c))\<bar> \<le> 1 / (1 + exp (- c)) / 2 ^ 50 \<and>
     0 < y \<and> y \<le> 1 \<and> (37 \<le> x \<longrightarrow> y = 1)"
proof -
  from sigmoid_func_double_value[OF assms, of x] obtain e s y where
    v: "Math_exp_double E (Fin (- max (- 500) (min 500 x))) = Fin e" "0 < e" "e < MAX_VALUE"
       "plus_double (Fin 1) (Fin e) = Fin s" "1 \<le> s" "s < MAX_VALUE"
       "divide_double (Fin 1) (Fin s) = Fin y"
       "sigmoid_func_double E (Fin x) = Fin y" "0 < y" "y \<le> 1" "37 \<le> x \<longrightarrow> s = 1 \<and> y = 1"
    by blast
  from sigmoid_func_double_accuracy[OF assms, of x] v(8)
  have a: "\<bar>y - 1 / (1 + exp (- max (- 500) (min 500 x)))\<bar> \<le>
             1 / (1 + exp (- max (- 500) (min 500 x))) / 2 ^ 50"
    by auto
  from v a show ?thesis by blast
qed

text \<open>
  With the correctly rounded exponential: \<^verbatim>\<open>sigmoid.func(37)\<close> is 1, and \<^verbatim>\<open>sigmoid.func(0)\<close>
  is within \<open>2\<^sup>-\<^sup>5\<^sup>0\<close> of its exact value \<open>1/2\<close>, inside \<open>(0, 1]\<close>.
\<close>

theorem sigmoid_func_double_range_witness:
  "Math_exp_accurate exp \<and>
   sigmoid_func_double exp (Fin 37) = Fin 1 \<and>
   (\<exists>y. sigmoid_func_double exp (Fin 0) = Fin y \<and> 0 < y \<and> y \<le> 1 \<and>
      \<bar>y - 1 / 2\<bar> \<le> 1 / 2 / 2 ^ 50)"
proof -
  from sigmoid_func_double_range[OF Math_exp_accurate_exp, of 37]
  have 1: "sigmoid_func_double exp (Fin 37) = Fin 1" by auto
  from sigmoid_func_double_range[OF Math_exp_accurate_exp, of 0]
  have 2: "\<exists>y. sigmoid_func_double exp (Fin 0) = Fin y \<and> 0 < y \<and> y \<le> 1 \<and>
      \<bar>y - 1 / 2\<bar> \<le> 1 / 2 / 2 ^ 50"
    by auto
  from 1 2 Math_exp_accurate_exp show ?thesis by blast
qed

section \<open>Neuron: construction and weight update\<close>

lemma draw_value_range: "0 \<le> draw_value d" "draw_value d < 1"
  using draw_value[of d] by simp_all

lemma draw_value_half [simp]: "draw_value (Draw (1 / 2)) = 1 / 2"
  by (simp add: Draw_inverse)

lemma Math_random_half [simp]: "Math_random half_generator = (1 / 2, half_generator)"
  by (simp add: Math_random_def half_generator_def)

lemma fold_update_upto:
  assumes "k \<le> length ws"
  shows "length (fold (\<lambda>i ws. ws[i := ws ! i + c i]) [0..<k] ws) = length ws \<and>
         (\<forall>i < length ws. fold (\<lambda>i ws. ws[i := ws ! i + c i]) [0..<k] ws ! i =
             (if i < k then ws ! i + c i else ws ! i))"
  using assms
proof (induction k)
  case 0
  then show ?case by simp
next
  case (Suc k)
  then have IH: "length (fold (\<lambda>i ws. ws[i := ws ! i + c i]) [0..<k] ws) = length ws"
    "\<And>i. i < length ws \<Longrightarrow> fold (\<lambda>i ws. ws[i := ws ! i + c i]) [0..<k] ws ! i =
             (if i < k then ws ! i + c i else ws ! i)"
    by simp_all
  from Suc.prems have k: "k < length ws" by simp
  show ?case
    using k by (auto simp: IH nth_list_update less_Suc_eq)
qed

text \<open>
  C7: \<^verbatim>\<open>updateWeights(delta, learningRate)\<close> throws 'Cannot update weights: no last inputs
  data available' when \<^verbatim>\<open>lastInputs\<close> is null, and leaves the neuron as it was. Otherwise
  every weight \<open>i\<close> becomes \<open>weights[i] + learningRate * delta * lastInputs[i]\<close>, the bias
  becomes \<open>bias + learningRate * delta\<close>, and the caches are untouched.
\<close>

theorem neuron_updateWeights_spec:
  "(lastInputs n = None \<longrightarrow> Neuron_updateWeights n delta rate = (Inl NoLastInputs, n)) \<and>
   (\<forall>li. lastInputs n = Some li \<longrightarrow>
      (\<exists>n'. Neuron_updateWeights n delta rate = (Inr (), n') \<and>
         length (weights n') = length (weights n) \<and>
         (\<forall>i < length (weights n).
            weights n' ! i = weights n ! i + rate * delta * at_index li i) \<and>
         bias n' = bias n + rate * delta \<and>
         lastInputs n' = lastInputs n \<and> lastOutput n' = lastOutput n))"
  using fold_update_upto[of "length (weights n)" "weights n" "\<lambda>i. rate * delta * at_index _ i"]
  by (auto simp: Neuron_updateWeights_def Let_def)

text \<open>
  The example of the specification: weights \<open>[0.5, -0.3]\<close>, bias \<open>0.1\<close>, last inputs
  \<open>[1.0, 0.5]\<close>, \<open>delta = 0.2\<close> and \<open>learningRate = 0.1\<close> give weights \<open>[0.52, -0.29]\<close> and
  bias \<open>0.12\<close>; the same call on a neuron that never ran \<^verbatim>\<open>forward\<close> throws.
\<close>

theorem neuron_updateWeights_spec_witness:
  "Neuron_updateWeights fresh_neuron (Fin (1 / 5)) (Fin (1 / 10)) = (Inl NoLastInputs, fresh_neuron) \<and>
   (\<exists>n'. Neuron_updateWeights example_neuron (Fin (1 / 5)) (Fin (1 / 10)) = (Inr (), n') \<and>
      weights n' = [Fin (13 / 25), Fin (- (29 / 100))] \<and> bias n' = Fin (3 / 25))"
proof -
  have f: "lastInputs fresh_neuron = None"
    and e: "lastInputs example_neuron = Some [Fin 1, Fin (1 / 2)]"
    by (simp_all add: fresh_neuron_def example_neuron_def)
  from neuron_updateWeights_spec[of fresh_neuron "Fin (1 / 5)" "Fin (1 / 10)"] f
  have 1: "Neuron_updateWeights fresh_neuron (Fin (1 / 5)) (Fin (1 / 10)) = (Inl NoLastInputs, fresh_neuron)"
    by simp
  from neuron_updateWeights_spec[of example_neuron "Fin (1 / 5)" "Fin (1 / 10)"] e
  obtain n' where n': "Neuron_updateWeights example_neuron (Fin (1 / 5)) (Fin (1 / 10)) = (Inr (), n')"
    "length (weights n') = length (weights example_neuron)"
    "\<forall>i < length (weights example_neuron).
        weights n' ! i = weights example_neuron ! i + Fin (1 / 10) * Fin (1 / 5) * at_index [Fin 1, Fin (1 / 2)] i"
    "bias n' = bias example_neuron + Fin (1 / 10) * Fin (1 / 5)"
    by blast
  have len: "length (weights n') = 2" using n'(2) by (simp add: example_neuron_def)
  have w0: "weights n' ! 0 = Fin (13 / 25)"
    using n'(3)[rule_format, of 0] by (simp add: example_neuron_def at_index_def)
  have w1: "weights n' ! 1 = Fin (- (29 / 100))"
    using n'(3)[rule_format, of 1] by (simp add: example_neuron_def at_index_def)
  have "weights n' = [Fin (13 / 25), Fin (- (29 / 100))]"
    using len w0 w1 by (auto simp: list_eq_iff_nth_eq less_Suc_eq numeral_2_eq_2)
  moreover have "bias n' = Fin (3 / 25)"
    using n'(4) by (simp add: example_neuron_def)
  ultimately show ?thesis using 1 n'(1) by blast
qed

lemma random_weights_bounds:
  assumes "0 \<le> L"
  shows "\<exists>ws g'. random_weights k (Fin L) g = (ws, g') \<and> length ws = k \<and>
           (\<forall>w \<in> set ws. \<exists>r. w = Fin r \<and> \<bar>r\<bar> \<le> L)"
proof (induction k arbitrary: g)
  case 0
  then show ?case by simp
next
  case (Suc k)
  obtain r g1 where rg: "Math_random g = (r, g1)" by (cases "Math_random g")
  then have r: "0 \<le> r" "r < 1"
    using draw_value_range[of "g 0"] by (auto simp: Math_random_def)
  from Suc[of g1] obtain ws g2 where ws: "random_weights k (Fin L) g1 = (ws, g2)"
    "length ws = k" "\<forall>w \<in> set ws. \<exists>r. w = Fin r \<and> \<bar>r\<bar> \<le> L" by blast
  have "\<bar>r * 2 - 1\<bar> \<le> 1" using r by (simp add: abs_le_iff)
  then have "\<bar>(r * 2 - 1) * L\<bar> \<le> L"
    using assms by (simp add: abs_mult mult_left_le_one_le)
  then show ?case
    using rg ws by (simp add: minus_number_def)
qed

text \<open>
  C9: for every input size \<open>n\<close> and every sequence of draws, \<^verbatim>\<open>new Neuron(n)\<close> has \<open>n\<close>
  weights, each of absolute value at most \<open>sqrt (6 / (n + 1))\<close>, a bias of absolute value at
  most \<open>0.1\<close>, and both caches null.
\<close>

theorem neuron_new_bounds:
  "\<exists>nr g'. Neuron_new (Fin (real n)) g = (Inr nr, g') \<and>
      length (weights nr) = n \<and>
      (\<forall>w \<in> set (weights nr). \<exists>r. w = Fin r \<and> \<bar>r\<bar> \<le> sqrt (6 / (real n + 1))) \<and>
      (\<exists>b. bias nr = Fin b \<and> \<bar>b\<bar> \<le> 1 / 10) \<and>
      lastInputs nr = None \<and> lastOutput nr = None"
proof -
  have limit: "Math_sqrt (Fin 6 / (Fin (real n) + Fin 1)) = Fin (sqrt (6 / (real n + 1)))"
    by (simp add: add_nonneg_eq_0_iff)
  obtain ws g1 where ws: "random_weights n (Fin (sqrt (6 / (real n + 1)))) g = (ws, g1)"
    "length ws = n" "\<forall>w \<in> set ws. \<exists>r. w = Fin r \<and> \<bar>r\<bar> \<le> sqrt (6 / (real n + 1))"
    using random_weights_bounds[of "sqrt (6 / (real n + 1))" n g] by auto
  obtain r g2 where rg: "Math_random g1 = (r, g2)" by (cases "Math_random g1")
  then have r: "0 \<le> r" "r < 1"
    using draw_value_range[of "g1 0"] by (auto simp: Math_random_def)
  define b where "b = (r * 2 - 1) * (1 / 10)"
  have "\<bar>r * 2 - 1\<bar> \<le> 1" using r by (simp add: abs_le_iff)
  then have b: "\<bar>b\<bar> \<le> 1 / 10"
    by (simp add: b_def abs_mult)
  have "Neuron_new (Fin (real n)) g =
      (Inr \<lparr>weights = ws, bias = Fin b, lastInputs = None, lastOutput = None\<rparr>, g2)"
    using ws(1) rg
    by (simp add: Neuron_new_def initializeWeights_def initializeBias_def limit minus_number_def b_def)
  then show ?thesis using ws(2,3) b by auto
qed

text \<open>With two inputs and every draw equal to \<open>1/2\<close>, both weights and the bias are 0.\<close>

theorem neuron_new_bounds_witness:
  "Neuron_new (Fin 2) half_generator =
     (Inr \<lparr>weights = [Fin 0, Fin 0], bias = Fin 0, lastInputs = None, lastOutput = None\<rparr>, half_generator) \<and>
   \<bar>0::real\<bar> \<le> sqrt (6 / (real (2::nat) + 1)) \<and> \<bar>0::real\<bar> \<le> 1 / 10"
proof -
  have ev: "Neuron_new (Fin 2) half_generator =
     (Inr \<lparr>weights = [Fin 0, Fin 0], bias = Fin 0, lastInputs = None, lastOutput = None\<rparr>, half_generator)"
    by (simp add: Neuron_new_def initializeWeights_def initializeBias_def minus_number_def
        numeral_2_eq_2)
  from neuron_new_bounds[of 2 half_generator] ev
  have "\<forall>w \<in> set [Fin 0, Fin 0]. \<exists>r. w = Fin r \<and> \<bar>r\<bar> \<le> sqrt (6 / (real (2::nat) + 1))"
    by auto
  then have "\<bar>0::real\<bar> \<le> sqrt (6 / (real (2::nat) + 1))" by auto
  then show ?thesis using ev by simp
qed


section \<open>The learning rate\<close>

text \<open>
  C3, as stated, fails: \<^verbatim>\<open>Infinity\<close> is a number and \<^verbatim>\<open>Infinity <= 0\<close> is false, so
  \<^verbatim>\<open>setLearningRate(Infinity)\<close> does not throw and stores the non-finite rate.
\<close>

theorem setLearningRate_accepts_infinity_counterexample:
  "\<not> isFinite PInf \<and>
   setLearningRate Network_new (JNumber PInf) = (Inr (), Network_new\<lparr>learningRate := PInf\<rparr>)"
  by (simp add: setLearningRate_def)

text \<open>
  C3, amended: \<^verbatim>\<open>setLearningRate(rate)\<close> throws 'Learning rate must be a positive number'
  and leaves the network as it was when \<open>rate\<close> is not a number or \<open>rate \<le> 0\<close>; for every
  number \<open>rate > 0\<close>, \<^verbatim>\<open>Infinity\<close> included, it stores the rate and returns. (Nothing is said
  about NaN, for which neither comparison holds.)
\<close>

theorem setLearningRate_spec:
  "((\<forall>r. rate \<noteq> JNumber r) \<or> (\<exists>r. rate = JNumber r \<and> r \<le> Fin 0) \<longrightarrow>
      setLearningRate net rate = (Inl LearningRateInvalid, net)) \<and>
   (\<forall>r. rate = JNumber r \<and> Fin 0 < r \<longrightarrow>
      setLearningRate net rate = (Inr (), net\<lparr>learningRate := r\<rparr>))"
proof -
  have "\<not> r \<le> Fin 0" if "Fin 0 < r" for r :: number
    using that by (cases r) auto
  then show ?thesis
    by (cases rate) (auto simp: setLearningRate_def)
qed

text \<open>The arguments of the test suite, and \<^verbatim>\<open>Infinity\<close>.\<close>

theorem setLearningRate_spec_witness:
  "setLearningRate Network_new (JString ''invalid'') = (Inl LearningRateInvalid, Network_new) \<and>
   setLearningRate Network_new (JNumber (Fin 0)) = (Inl LearningRateInvalid, Network_new) \<and>
   setLearningRate Network_new (JNumber (Fin (- (1 / 10)))) = (Inl LearningRateInvalid, Network_new) \<and>
   setLearningRate Network_new (JNumber (Fin (1 / 20))) =
     (Inr (), Network_new\<lparr>learningRate := Fin (1 / 20)\<rparr>) \<and>
   setLearningRate Network_new (JNumber PInf) = (Inr (), Network_new\<lparr>learningRate := PInf\<rparr>)"
  using setLearningRate_spec[of "JString ''invalid''" Network_new]
    setLearningRate_spec[of "JNumber (Fin 0)" Network_new]
    setLearningRate_spec[of "JNumber (Fin (- (1 / 10)))" Network_new]
    setLearningRate_spec[of "JNumber (Fin (1 / 20))" Network_new]
    setLearningRate_spec[of "JNumber PInf" Network_new]
  by simp

section \<open>What prediction and training leave unchanged\<close>














lemma same_but_layers_refl [simp]: "same_but_layers net net"
  by (simp add: same_but_layers_def)









section \<open>Evaluation on concrete networks\<close>

text \<open>The definitions that the evaluation of a call on concrete values unfolds.\<close>

lemmas eval_defs =
  predict_def validatePredictionInputs_def Layer_forward_def Layer_validateInputs_def
  Neuron_forward_def Neuron_validateInputs_def calculateWeightedSum_def calculateError_def
  backpropagate_def backwardOutput_def validateTargets_def Neuron_updateWeights_def
  backwardHidden_def validateBackpropagationInputs_def calculateNeuronError_def
  getConnectionWeights_def
  trainEpoch_def shuffleArray_def evaluateValidation_def epoch_body_def earlyStopping_def
  train_def validateTrainingData_def prepareForTraining_def compile_def
  at_index_def len_def Let_def minus_number_def
  linear_func_def linear_derivative_def entry_def

text \<open>The zero network is what \<^verbatim>\<open>addLayer(1, activations.linear, 1)\<close> builds when every draw is 1/2.\<close>

lemma run_zero: "run [AddLayer (Fin 1) (Some (entry linear_func linear_derivative)) (Some (Fin 1))] half_generator
   = (zero_network, half_generator)"
  by (simp add: run_def Network_new_def addLayer_def validateLayerParameters_def
      determineLayerInputSize_def Layer_new_def Layer_validateParameters_def Neuron_new_def
      initializeWeights_def initializeBias_def zero_network_def zero_layer_def zero_neuron_def
      entry_def minus_number_def)

section \<open>The cases of the test suite\<close>

text \<open>
  The model on the inputs of the repository's tests: the forward pass of the specification's
  neuron, and the calls that the tests expect to throw, each with the error of the expected
  message.
\<close>

lemma example_neuron_forward:
  "Neuron_forward fresh_neuron (Array [Fin 1, Fin (1 / 2)]) (Some sigmoid_func) =
     (Inr (sigmoid_func (Fin (9 / 20))), example_neuron)"
  by (simp add: Neuron_forward_def Neuron_validateInputs_def calculateWeightedSum_def
      fresh_neuron_def example_neuron_def at_index_def Let_def)

lemma neuron_forward_rejects:
  "fst (Neuron_forward fresh_neuron (Array [Fin 1]) (Some sigmoid_func)) = Inl NeuronInputSizeMismatch"
  "fst (Neuron_forward fresh_neuron Undefined (Some sigmoid_func)) = Inl NeuronInputNotArray"
  "fst (Neuron_forward fresh_neuron (Array [Fin 1, PInf]) (Some sigmoid_func)) = Inl InputNotFinite"
  by (simp_all add: Neuron_forward_def Neuron_validateInputs_def fresh_neuron_def)

lemma addLayer_rejects:
  "fst (addLayer Network_new (Fin 2) (Some (entry sigmoid_func sigmoid_derivative)) None g) =
     Inl FirstLayerInputSizeMissing"
  "fst (addLayer Network_new (Fin 0) (Some (entry sigmoid_func sigmoid_derivative)) (Some (Fin 2)) g) =
     Inl NeuronCountInvalid"
  "fst (addLayer Network_new (Fin (- 1)) (Some (entry sigmoid_func sigmoid_derivative)) (Some (Fin 2)) g) =
     Inl NeuronCountInvalid"
  "fst (addLayer Network_new (Fin 2) (Some \<lparr>func = None, derivative = None, name = None\<rparr>) (Some (Fin 2)) g) =
     Inl ActivationFuncMissing"
  by (simp_all add: addLayer_def validateLayerParameters_def Network_new_def entry_def)

lemma compile_and_predict_reject:
  "compile Network_new = (Inl CompileNoLayers, Network_new)"
  "predict Network_new (Array [Fin 1]) = (Inl PredictNoLayers, Network_new)"
  "predict zero_network Undefined = (Inl PredictInputNotArray, zero_network)"
  "predict zero_network (Array [Fin 1, Fin 2]) = (Inl PredictInputSizeMismatch, zero_network)"
  by (simp_all add: compile_def predict_def validatePredictionInputs_def Network_new_def
      zero_network_def zero_layer_def len_def)

lemma train_rejects:
  "fst (train net (Array []) epochs opts g) = Inl TrainingDataEmpty"
  "fst (train net Undefined epochs opts g) = Inl TrainingDataEmpty"
  "fst (train net (Array [\<lparr>input = Array [Fin 1, Fin 2], target = Undefined\<rparr>]) epochs opts g) =
     Inl ExampleFieldsMissing"
  "fst (train net (Array [\<lparr>input = Undefined, target = Array [Fin 1]\<rparr>]) epochs opts g) =
     Inl ExampleFieldsMissing"
  "fst (train net (Array [\<lparr>input = Array [Fin 1, Fin 2], target = Array [Fin 0]\<rparr>,
                         \<lparr>input = Array [Fin 1], target = Array [Fin 0]\<rparr>]) epochs opts g) =
     Inl InputSizesDiffer"
  "fst (train net (Array [\<lparr>input = Array [Fin 1, Fin 2], target = Array [Fin 0]\<rparr>,
                         \<lparr>input = Array [Fin 1, Fin 2], target = Array [Fin 0, Fin 1]\<rparr>]) epochs opts g) =
     Inl TargetSizesDiffer"
  by (simp_all add: train_def validateTrainingData_def)

lemma layer_backward_rejects:
  "fst (backwardOutput zero_layer (Array [Fin 1, Fin 2]) (Fin (1 / 10))) = Inl TargetSizeMismatch"
  "fst (backwardHidden zero_layer Undefined (Array [[Fin 1, Fin 2]]) (Fin (1 / 10))) = Inl DeltasNotArrays"
  "fst (backwardHidden zero_layer (Array [Fin (1 / 10), Fin (1 / 5)]) (Array [[Fin 1, Fin 2]]) (Fin (1 / 10)))
     = Inl DeltasCountMismatch"
  by (simp_all add: backwardOutput_def validateTargets_def backwardHidden_def
      validateBackpropagationInputs_def zero_layer_def)

lemma trained_network_history:
  "trainingHistory trained_network = [Fin 0] \<and> isCompiled trained_network \<and>
   trainingHistory (reset trained_network) = [] \<and>
   map weights (neurons (hd (layers (reset trained_network)))) = [[Fin 0]] \<and>
   map lastInputs (neurons (hd (layers (reset trained_network)))) = [None]"
  by (simp add: trained_network_def reset_def Layer_reset_def eval_defs train_loop.simps
      zero_network_def zero_layer_def zero_neuron_def fitted_data_def default_options_def)

section \<open>The length of the training history\<close>




text \<open>
  When the loop is left by \<^verbatim>\<open>break\<close>: early stopping is on, the validation error of this epoch
  did not improve on the best one, and the patience counter, incremented, has reached
  \<^verbatim>\<open>earlyStoppingPatience\<close>.
\<close>

lemma epoch_body_break:
  "epoch_body td opts best pc net g = (Break, net1, g1) \<Longrightarrow>
     \<exists>vdata patience avg net2 verr.
       earlyStopping opts = Some (vdata, patience) \<and>
       trainEpoch net td g = (Inr avg, net2, g1) \<and>
       evaluateValidation (net2\<lparr>trainingHistory := trainingHistory net2 @ [avg]\<rparr>) vdata =
         (Inr verr, net1) \<and>
       \<not> verr < best \<and> patience \<le> Fin (real (pc + 1))"
  by (auto simp: epoch_body_def Let_def split: prod.splits sum.splits option.splits if_splits)




section \<open>The loss and the shuffle\<close>

lemma foldl_squares:
  "k + length ps \<le> length ts \<Longrightarrow>
   foldl (\<lambda>sum (pred, index). sum + Math_pow2 (pred - at_index (map Fin ts) index))
     (Fin a) (zip (map Fin ps) [k..<k + length ps]) =
   Fin (a + (\<Sum>i<length ps. (ps ! i - ts ! (k + i))\<^sup>2))"
proof (induction ps arbitrary: a k)
  case Nil
  then show ?case by simp
next
  case (Cons p ps)
  let ?F = "\<lambda>sum (pred, index). sum + Math_pow2 (pred - at_index (map Fin ts) index)"
  have "[k..<k + length (p # ps)] = k # [Suc k..<k + length (p # ps)]"
    by (rule upt_conv_Cons) simp
  then have upt: "[k..<k + length (p # ps)] = k # [Suc k..<Suc k + length ps]"
    by simp
  have k: "k < length ts" and k': "Suc k + length ps \<le> length ts"
    using Cons.prems by simp_all
  have val: "Fin a + Math_pow2 (Fin p - at_index (map Fin ts) k) = Fin (a + (p - ts ! k)\<^sup>2)"
    using k by (simp add: at_index_def minus_number_def)
  have sum: "(\<Sum>i<length (p # ps). ((p # ps) ! i - ts ! (k + i))\<^sup>2) =
        (p - ts ! k)\<^sup>2 + (\<Sum>i<length ps. (ps ! i - ts ! (Suc k + i))\<^sup>2)"
    by (simp add: sum.lessThan_Suc_shift del: sum.lessThan_Suc)
  have "foldl ?F (Fin a) (zip (map Fin (p # ps)) [k..<k + length (p # ps)]) =
        foldl ?F (Fin a + Math_pow2 (Fin p - at_index (map Fin ts) k))
          (zip (map Fin ps) [Suc k..<Suc k + length ps])"
    unfolding upt by simp
  also have "\<dots> = Fin (a + (p - ts ! k)\<^sup>2 + (\<Sum>i<length ps. (ps ! i - ts ! (Suc k + i))\<^sup>2))"
    unfolding val by (rule Cons.IH[OF k'])
  finally show ?case unfolding sum by (simp add: add.assoc)
qed

lemma calculateError_mean_squares:
  "length ps = length ts \<Longrightarrow>
   calculateError (map Fin ps) (Array (map Fin ts)) =
     Inr (Fin (\<Sum>i<length ps. (ps ! i - ts ! i)\<^sup>2) / len ps)"
  using foldl_squares[of 0 ps ts 0]
  by (simp add: calculateError_def len_def Let_def)

lemma random_index_le:
  assumes "Math_random g = (r, g1)"
  shows "nat \<lfloor>r * real (i + 1)\<rfloor> \<le> i"
proof -
  from assms have r: "0 \<le> r" "r < 1"
    using draw_value_range[of "g 0"] by (auto simp: Math_random_def)
  have "r * real (i + 1) < real (i + 1)"
    using r by (simp add: mult_less_cancel_right2)
  then have "\<lfloor>r * real (i + 1)\<rfloor> < int (i + 1)"
    by (simp add: floor_less_iff)
  then show ?thesis by linarith
qed

lemma shuffle_loop_mset:
  "k < length xs \<Longrightarrow> mset (fst (shuffle_loop k xs g)) = mset xs"
proof (induction k arbitrary: xs g)
  case 0
  then show ?case by simp
next
  case (Suc k)
  obtain r g1 where rg: "Math_random g = (r, g1)" by (cases "Math_random g")
  define j where "j = nat \<lfloor>r * real (Suc k + 1)\<rfloor>"
  have j: "j \<le> Suc k" unfolding j_def by (rule random_index_le[OF rg])
  with Suc.prems have sw: "mset (xs[Suc k := xs ! j, j := xs ! Suc k]) = mset xs"
    by (simp add: mset_swap)
  have "k < length (xs[Suc k := xs ! j, j := xs ! Suc k])" using Suc.prems by simp
  from Suc.IH[OF this, of g1] sw
  show ?case by (simp add: rg j_def Let_def)
qed

lemma shuffleArray_mset: "mset (fst (shuffleArray xs g)) = mset xs"
proof (cases xs)
  case Nil
  then show ?thesis by (simp add: shuffleArray_def)
next
  case (Cons x ys)
  then show ?thesis by (simp add: shuffleArray_def shuffle_loop_mset)
qed

section \<open>The architecture invariant\<close>

lemma createNeurons_length:
  "createNeurons k s g = (Inr ns, g1) \<Longrightarrow> length ns = k"
  by (induction k arbitrary: g ns g1) (auto split: prod.splits sum.splits)

lemma Layer_new_shape:
  "Layer_new nc s a g = (Inr l, g1) \<Longrightarrow> s = Some (inputSize l) \<and> layer_size l = nc"
  by (auto simp: Layer_new_def split: option.splits prod.splits sum.splits)

lemma addLayer_result:
  assumes "addLayer net nc a s g = (r, net1, g1)"
  shows "(\<exists>e. r = Inl e \<and> net1 = net) \<or>
         (r = Inr () \<and> (\<exists>l. layers net1 = layers net @ [l] \<and> layer_size l = nc \<and>
            (if layers net = [] then s = Some (inputSize l)
             else inputSize l = layer_size (last (layers net)))))"
  using assms
  by (auto simp: addLayer_def Let_def determineLayerInputSize_def
      split: option.splits prod.splits sum.splits if_splits dest!: Layer_new_shape)










section \<open>Failing calls\<close>

subsection \<open>Which errors the passes can raise\<close>

lemma Neuron_forward_errors:
  "Neuron_forward n inputs f = (Inl e, n1) \<Longrightarrow>
     e \<in> {NeuronInputNotArray, NeuronInputSizeMismatch, InputNotFinite, TypeError}"
  by (auto simp: Neuron_forward_def Neuron_validateInputs_def Let_def
      split: option.splits js_array.splits if_splits)

lemma forward_neurons_errors:
  "forward_neurons ns inputs f = (Inl e, ns1) \<Longrightarrow>
     e \<in> {NeuronInputNotArray, NeuronInputSizeMismatch, InputNotFinite, TypeError}"
proof (induction ns arbitrary: ns1)
  case Nil
  then show ?case by simp
next
  case (Cons n ns)
  then show ?case
    by (auto split: prod.splits sum.splits dest: Neuron_forward_errors)
qed

lemma Layer_forward_errors:
  "Layer_forward l inputs = (Inl e, l1) \<Longrightarrow>
     e \<in> {LayerInputSizeMismatch, NeuronInputNotArray, NeuronInputSizeMismatch, InputNotFinite, TypeError}"
  by (auto simp: Layer_forward_def Layer_validateInputs_def
      split: option.splits js_array.splits if_splits prod.splits sum.splits
      dest: forward_neurons_errors)

lemma predict_loop_errors:
  "predict_loop ls xs = (Inl e, ls1) \<Longrightarrow>
     e \<in> {LayerInputSizeMismatch, NeuronInputNotArray, NeuronInputSizeMismatch, InputNotFinite, TypeError}"
proof (induction ls arbitrary: xs ls1)
  case Nil
  then show ?case by simp
next
  case (Cons l ls)
  then show ?case
    by (auto split: prod.splits sum.splits dest: Layer_forward_errors)
qed

lemma predict_errors:
  "predict net inputs = (Inl e, net1) \<Longrightarrow>
     e \<notin> training_check_errors"
  by (auto simp: training_check_errors_def predict_def validatePredictionInputs_def
      split: option.splits js_array.splits if_splits prod.splits dest: predict_loop_errors)

lemma Neuron_updateWeights_errors:
  "Neuron_updateWeights n d r = (Inl e, n1) \<Longrightarrow> e = NoLastInputs \<and> n1 = n"
  by (auto simp: Neuron_updateWeights_def Let_def split: option.splits)

lemma backwardOutput_loop_errors:
  "backwardOutput_loop idx ts rate l deltas = (Inl e, l1) \<Longrightarrow> e \<in> {TypeError, NoLastInputs}"
  by (induction idx ts rate l deltas rule: backwardOutput_loop.induct)
     (auto simp: Let_def split: option.splits prod.splits sum.splits
       dest: Neuron_updateWeights_errors)

lemma backwardHidden_loop_errors:
  "backwardHidden_loop idx ds wss rate l deltas = (Inl e, l1) \<Longrightarrow> e \<in> {TypeError, NoLastInputs}"
  by (induction idx ds wss rate l deltas rule: backwardHidden_loop.induct)
     (auto simp: Let_def split: option.splits prod.splits sum.splits
       dest: Neuron_updateWeights_errors)

lemma backwardOutput_errors:
  "backwardOutput l targets rate = (Inl e, l1) \<Longrightarrow> e \<in> {TargetSizeMismatch, TypeError, NoLastInputs}"
  by (auto simp: backwardOutput_def validateTargets_def
      split: option.splits js_array.splits if_splits dest: backwardOutput_loop_errors)

lemma backwardHidden_errors:
  "backwardHidden l ds wss rate = (Inl e, l1) \<Longrightarrow>
     e \<in> {DeltasNotArrays, DeltasCountMismatch, TypeError, NoLastInputs}"
  by (auto simp: backwardHidden_def validateBackpropagationInputs_def
      split: option.splits js_array.splits if_splits prod.splits dest: backwardHidden_loop_errors)

lemma backpropagate_loop_errors:
  "backpropagate_loop k ls deltas rate = (Inl e, ls1) \<Longrightarrow>
     e \<in> {DeltasNotArrays, DeltasCountMismatch, TypeError, NoLastInputs}"
proof (induction k arbitrary: ls deltas ls1)
  case 0
  then show ?case by simp
next
  case (Suc k)
  then show ?case
    by (auto simp: Let_def split: prod.splits sum.splits dest: backwardHidden_errors)
qed

lemma backpropagate_errors:
  "backpropagate net targets = (Inl e, net1) \<Longrightarrow>
     e \<notin> training_check_errors"
  by (auto simp: training_check_errors_def backpropagate_def Let_def
      split: if_splits prod.splits sum.splits
      dest: backwardOutput_errors backpropagate_loop_errors)

lemma calculateError_errors:
  "calculateError predicted actual = Inl e \<Longrightarrow> e \<notin> training_check_errors"
  by (auto simp: training_check_errors_def calculateError_def Let_def
      split: js_array.splits if_splits)

lemma trainEpoch_loop_errors:
  "trainEpoch_loop xs net tot = (Inl e, net1) \<Longrightarrow>
     e \<notin> training_check_errors"
proof (induction xs arbitrary: net tot)
  case Nil
  then show ?case by simp
next
  case (Cons ex rest)
  then show ?case
    by (auto split: prod.splits sum.splits
        dest: predict_errors backpropagate_errors calculateError_errors)
qed

lemma evaluateValidation_loop_errors:
  "evaluateValidation_loop xs net tot = (Inl e, net1) \<Longrightarrow>
     e \<notin> training_check_errors"
proof (induction xs arbitrary: net tot)
  case Nil
  then show ?case by simp
next
  case (Cons ex rest)
  then show ?case
    by (auto split: prod.splits sum.splits dest: predict_errors calculateError_errors)
qed

lemma epoch_body_errors:
  "epoch_body td opts best pc net g = (Throw e, net1, g1) \<Longrightarrow>
     e \<notin> training_check_errors"
  by (auto simp: epoch_body_def trainEpoch_def evaluateValidation_def Let_def
      split: prod.splits sum.splits option.splits if_splits
      dest: trainEpoch_loop_errors evaluateValidation_loop_errors)

lemma train_loop_errors:
  "train_loop epoch epochs td opts best pc net g = (Inl e, net1, g1) \<Longrightarrow>
     e \<notin> training_check_errors"
proof (induction epoch epochs td opts best pc net g rule: train_loop.induct)
  case (1 epoch epochs td opts best pc net g)
  show ?case
  proof (cases "real epoch < epochs")
    case False
    with "1.prems" show ?thesis by (simp add: train_loop.simps)
  next
    case True
    obtain out net2 g2 where eb: "epoch_body td opts best pc net g = (out, net2, g2)"
      by (cases "epoch_body td opts best pc net g")
    show ?thesis
    proof (cases out)
      case (Throw e')
      with "1.prems" True eb have "e = e'" by (simp add: train_loop.simps)
      with epoch_body_errors[of td opts best pc net g e' net2 g2] eb Throw show ?thesis by simp
    next
      case Break
      with "1.prems" True eb show ?thesis by (simp add: train_loop.simps)
    next
      case (Continue b c)
      with "1.prems" True eb
      have rec: "train_loop (epoch + 1) epochs td opts b c net2 g2 = (Inl e, net1, g1)"
        by (simp add: train_loop.simps)
      from "1.IH"[OF True eb[symmetric] Continue refl rec] show ?thesis .
    qed
  qed
qed

lemma validate_sizes_errors:
  "validate_sizes xs a b = Some e \<Longrightarrow> e \<in> {TypeError, InputSizesDiffer, TargetSizesDiffer}"
  by (induction xs) (auto split: js_array.splits if_splits)

lemma validateTrainingData_errors:
  "validateTrainingData d = Some e \<Longrightarrow>
     e \<in> {TrainingDataEmpty, ExampleFieldsMissing, TypeError, InputSizesDiffer, TargetSizesDiffer}"
  by (auto simp: validateTrainingData_def split: js_array.splits list.splits prod.splits
      dest: validate_sizes_errors)

lemma prepareForTraining_failure:
  "prepareForTraining net td = (Inl e, net1) \<Longrightarrow>
     (e = CompileNoLayers \<and> net1 = net) \<or>
     (e \<in> {TypeError, NetworkInputSizeMismatch, OutputLayerSizeMismatch} \<and>
      layers net1 = layers net \<and> learningRate net1 = learningRate net \<and>
      trainingHistory net1 = [] \<and> isCompiled net1)"
  by (auto simp: prepareForTraining_def compile_def Let_def
      split: if_splits list.splits js_array.splits prod.splits)

lemma train_architecture_failure:
  assumes "train net trainingData epochs opts g = (Inl e, net1, g1)"
    and "e \<in> {NetworkInputSizeMismatch, OutputLayerSizeMismatch}"
  shows "layers net1 = layers net \<and> learningRate net1 = learningRate net \<and>
         trainingHistory net1 = [] \<and> isCompiled net1 \<and> g1 = g"
proof (cases "validateTrainingData trainingData")
  case (Some e')
  with assms validateTrainingData_errors[OF Some] show ?thesis
    by (auto simp: train_def)
next
  case None
  then obtain td where td: "trainingData = Array td"
    by (cases trainingData) (auto simp: validateTrainingData_def)
  obtain r0 net0 where p: "prepareForTraining net td = (r0, net0)"
    by (cases "prepareForTraining net td")
  show ?thesis
  proof (cases r0)
    case (Inl e')
    with assms None td p have "e' = e" "net1 = net0" "g1 = g" by (simp_all add: train_def)
    with prepareForTraining_failure[of net td e' net0] p Inl assms(2) show ?thesis by auto
  next
    case (Inr u)
    with assms(1) None td p have "train_loop 0 epochs td opts PInf 0 net0 g = (Inl e, net1, g1)"
      by (simp add: train_def)
    from train_loop_errors[OF this] assms(2) show ?thesis
      by (auto simp: training_check_errors_def)
  qed
qed

lemma train_validation_failure:
  assumes "train net trainingData epochs opts g = (Inl e, net1, g1)"
    and "e \<in> {TrainingDataEmpty, ExampleFieldsMissing, InputSizesDiffer, TargetSizesDiffer,
               CompileNoLayers}"
  shows "net1 = net \<and> g1 = g"
proof (cases "validateTrainingData trainingData")
  case (Some e')
  with assms show ?thesis by (auto simp: train_def)
next
  case None
  then obtain td where td: "trainingData = Array td"
    by (cases trainingData) (auto simp: validateTrainingData_def)
  obtain r0 net0 where p: "prepareForTraining net td = (r0, net0)"
    by (cases "prepareForTraining net td")
  show ?thesis
  proof (cases r0)
    case (Inl e')
    with assms None td p have "e' = e" "net1 = net0" "g1 = g" by (simp_all add: train_def)
    with prepareForTraining_failure[of net td e' net0] p Inl assms(2) show ?thesis by auto
  next
    case (Inr u)
    with assms(1) None td p have "train_loop 0 epochs td opts PInf 0 net0 g = (Inl e, net1, g1)"
      by (simp add: train_def)
    from train_loop_errors[OF this] assms(2) show ?thesis
      by (auto simp: training_check_errors_def)
  qed
qed

lemma setWeights_loop_errors:
  "setWeights_loop idx ds l = (Inl e, l1) \<Longrightarrow> e = InvalidWeightsFormat"
  by (induction idx ds l rule: setWeights_loop.induct)
     (auto simp: Neuron_setWeights_def split: prod.splits sum.splits js_array.splits if_splits)

subsection \<open>Where a failing call leaves the receiver as it was\<close>

text \<open>
  The argument checks of every operation run before the operation changes anything. A call
  of \<^verbatim>\<open>Neuron.forward\<close> with a function, of \<^verbatim>\<open>Neuron.updateWeights\<close>, \<^verbatim>\<open>Neuron.setWeights\<close>,
  \<^verbatim>\<open>addLayer\<close>, \<^verbatim>\<open>compile\<close> or \<^verbatim>\<open>setLearningRate\<close> that throws, and a call of \<^verbatim>\<open>Layer.forward\<close>,
  \<^verbatim>\<open>backwardOutput\<close>, \<^verbatim>\<open>backwardHidden\<close>, \<^verbatim>\<open>Layer.setWeights\<close>, \<^verbatim>\<open>predict\<close> or \<^verbatim>\<open>train\<close> that
  throws the error of one of its own argument checks (for \<^verbatim>\<open>train\<close>: of \<^verbatim>\<open>validateTrainingData\<close>
  or of \<^verbatim>\<open>compile\<close>), leaves the receiver exactly as it was.
\<close>

lemma argument_checks_before_mutation:
  "(\<forall>e n1. Neuron_forward n inputs (Some f) = (Inl e, n1) \<longrightarrow> n1 = n) \<and>
   (\<forall>e n1. Neuron_updateWeights n delta rate = (Inl e, n1) \<longrightarrow> n1 = n) \<and>
   (\<forall>e n1. Neuron_setWeights n ws b = (Inl e, n1) \<longrightarrow> n1 = n) \<and>
   (\<forall>l1. Layer_forward l inputs = (Inl LayerInputSizeMismatch, l1) \<longrightarrow> l1 = l) \<and>
   (\<forall>l1. backwardOutput l targets rate = (Inl TargetSizeMismatch, l1) \<longrightarrow> l1 = l) \<and>
   (\<forall>e l1. backwardHidden l nextLayerDeltas nextLayerWeights rate = (Inl e, l1) \<and>
       e \<in> {DeltasNotArrays, DeltasCountMismatch} \<longrightarrow> l1 = l) \<and>
   (\<forall>l1. Layer_setWeights l weightsData = (Inl InvalidWeightsData, l1) \<longrightarrow> l1 = l) \<and>
   (\<forall>e net1 g1. addLayer net neuronCount actFn inSize g = (Inl e, net1, g1) \<longrightarrow> net1 = net) \<and>
   (\<forall>e net1. compile net = (Inl e, net1) \<longrightarrow> net1 = net) \<and>
   (\<forall>e net1. predict net inputs = (Inl e, net1) \<and>
       e \<in> {PredictInputNotArray, PredictNoLayers, PredictInputSizeMismatch} \<longrightarrow> net1 = net) \<and>
   (\<forall>e net1. setLearningRate net v = (Inl e, net1) \<longrightarrow> net1 = net) \<and>
   (\<forall>e net1 g1. train net trainingData epochs opts g = (Inl e, net1, g1) \<and>
       e \<in> {TrainingDataEmpty, ExampleFieldsMissing, InputSizesDiffer, TargetSizesDiffer,
            CompileNoLayers} \<longrightarrow> net1 = net \<and> g1 = g)"
proof -
  have N1: "\<forall>e n1. Neuron_forward n inputs (Some f) = (Inl e, n1) \<longrightarrow> n1 = n"
    by (auto simp: Neuron_forward_def Let_def split: option.splits js_array.splits)
  have N2: "\<forall>e n1. Neuron_updateWeights n delta rate = (Inl e, n1) \<longrightarrow> n1 = n"
    by (auto dest: Neuron_updateWeights_errors)
  have N3: "\<forall>e n1. Neuron_setWeights n ws b = (Inl e, n1) \<longrightarrow> n1 = n"
    by (auto simp: Neuron_setWeights_def split: js_array.splits if_splits)
  have L1: "\<forall>l1. Layer_forward l inputs = (Inl LayerInputSizeMismatch, l1) \<longrightarrow> l1 = l"
    by (auto simp: Layer_forward_def split: option.splits prod.splits sum.splits
        dest: forward_neurons_errors)
  have L2: "\<forall>l1. backwardOutput l targets rate = (Inl TargetSizeMismatch, l1) \<longrightarrow> l1 = l"
    by (auto simp: backwardOutput_def split: option.splits js_array.splits
        dest: backwardOutput_loop_errors)
  have L3: "\<forall>e l1. backwardHidden l nextLayerDeltas nextLayerWeights rate = (Inl e, l1) \<and>
       e \<in> {DeltasNotArrays, DeltasCountMismatch} \<longrightarrow> l1 = l"
    by (auto simp: backwardHidden_def split: option.splits js_array.splits prod.splits
        dest: backwardHidden_loop_errors)
  have L4: "\<forall>l1. Layer_setWeights l weightsData = (Inl InvalidWeightsData, l1) \<longrightarrow> l1 = l"
    by (auto simp: Layer_setWeights_def split: js_array.splits if_splits
        dest: setWeights_loop_errors)
  have W1: "\<forall>e net1 g1. addLayer net neuronCount actFn inSize g = (Inl e, net1, g1) \<longrightarrow> net1 = net"
    by (auto dest: addLayer_result)
  have W2: "\<forall>e net1. compile net = (Inl e, net1) \<longrightarrow> net1 = net"
    by (auto simp: compile_def split: if_splits)
  have W3: "\<forall>e net1. predict net inputs = (Inl e, net1) \<and>
       e \<in> {PredictInputNotArray, PredictNoLayers, PredictInputSizeMismatch} \<longrightarrow> net1 = net"
    by (auto simp: predict_def split: option.splits js_array.splits prod.splits
        dest: predict_loop_errors)
  have W4: "\<forall>e net1. setLearningRate net v = (Inl e, net1) \<longrightarrow> net1 = net"
    by (auto simp: setLearningRate_def split: jsval.splits if_splits)
  have W5: "\<forall>e net1 g1. train net trainingData epochs opts g = (Inl e, net1, g1) \<and>
       e \<in> {TrainingDataEmpty, ExampleFieldsMissing, InputSizesDiffer, TargetSizesDiffer,
            CompileNoLayers} \<longrightarrow> net1 = net \<and> g1 = g"
    using train_validation_failure by blast
  from N1 N2 N3 L1 L2 L3 L4 W1 W2 W3 W4 W5 show ?thesis by blast
qed

subsection \<open>Where a failing call has already changed the receiver\<close>

text \<open>
  \<^verbatim>\<open>Neuron.forward\<close> assigns \<^verbatim>\<open>lastInputs\<close> before it calls the activation: when that is not a
  function the call raises a TypeError with the cache already overwritten.
\<close>

lemma Neuron_forward_not_a_function:
  "Neuron_validateInputs n (Array xs) = None \<Longrightarrow>
     Neuron_forward n (Array xs) None = (Inl TypeError, n\<lparr>lastInputs := Some xs\<rparr>)"
  by (simp add: Neuron_forward_def Let_def)

lemma Neuron_forward_not_a_function_example:
  "Neuron_forward fresh_neuron (Array [Fin 1, Fin (1 / 2)]) None =
     (Inl TypeError, fresh_neuron\<lparr>lastInputs := Some [Fin 1, Fin (1 / 2)]\<rparr>) \<and>
   lastInputs fresh_neuron = None"
  by (simp add: Neuron_forward_def Neuron_validateInputs_def fresh_neuron_def Let_def)

text \<open>
  \<^verbatim>\<open>Layer.setWeights\<close> checks the number of entries, and then each neuron checks its own
  entry when its turn comes: with a first entry of the right length and a second one of the
  wrong length, the call throws 'Invalid weights format' with the first neuron rewritten.
\<close>

lemma Layer_setWeights_partial:
  "Layer_setWeights
     \<lparr>neurons = [zero_neuron, zero_neuron], activationFunction = entry linear_func linear_derivative,
      outputs = [], layer_size = Fin 2, inputSize = Fin 1\<rparr>
     (Array [(Array [Fin 5], Fin 7), (Array [Fin 1, Fin 2], Fin 3)]) =
   (Inl InvalidWeightsFormat,
    \<lparr>neurons = [zero_neuron\<lparr>weights := [Fin 5], bias := Fin 7\<rparr>, zero_neuron],
     activationFunction = entry linear_func linear_derivative,
     outputs = [], layer_size = Fin 2, inputSize = Fin 1\<rparr>)"
  by (simp add: Layer_setWeights_def Neuron_setWeights_def zero_neuron_def upt_rec)

text \<open>
  A pass that throws in a later layer has already run the layers before it: here the first
  layer's activation returns \<^verbatim>\<open>Infinity\<close>, the second layer rejects it as an input ('All input
  values must be finite numbers'), and the first layer keeps the caches of the failed call.
\<close>

lemma predict_partial:
  "predict
     \<lparr>layers = [zero_layer\<lparr>activationFunction := entry (\<lambda>x. PInf) linear_derivative\<rparr>, zero_layer],
      learningRate = Fin (1 / 10), trainingHistory = [], isCompiled = True\<rparr>
     (Array [Fin 1]) =
   (Inl InputNotFinite,
    \<lparr>layers = [zero_layer\<lparr>activationFunction := entry (\<lambda>x. PInf) linear_derivative,
                   neurons := [zero_neuron\<lparr>lastInputs := Some [Fin 1], lastOutput := Some PInf\<rparr>],
                   outputs := [PInf]\<rparr>, zero_layer],
      learningRate = Fin (1 / 10), trainingHistory = [], isCompiled = True\<rparr>)"
  by (simp add: eval_defs zero_layer_def zero_neuron_def)

lemma isCompiled_update_True: "isCompiled net \<Longrightarrow> net\<lparr>isCompiled := True\<rparr> = net"
  by (cases net) simp

text \<open>
  C2, where the code departs from it: \<^verbatim>\<open>prepareForTraining\<close> compiles the network and empties
  \<^verbatim>\<open>trainingHistory\<close> before it compares the architecture with the data. A \<^verbatim>\<open>train\<close> call whose
  data pass \<^verbatim>\<open>validateTrainingData\<close> and whose first example does not have the input size of
  the first layer, or the target size of the last layer, throws 'Network input size (..)
  does not match input data size (..)' or 'Output layer size (..) does not match target data
  size (..)', and the network it leaves has \<^verbatim>\<open>isCompiled\<close> true and an empty
  \<^verbatim>\<open>trainingHistory\<close>, whatever they were before the call; the layers, the learning rate and
  the generator are as they were.
\<close>

theorem train_mutates_before_architecture_check:
  assumes "validateTrainingData (Array trainingData) = None"
    and "layers net \<noteq> []"
    and "input (hd trainingData) = Array xs" and "target (hd trainingData) = Array ts"
    and "inputSize (hd (layers net)) \<noteq> len xs \<or> layer_size (last (layers net)) \<noteq> len ts"
  shows "train net (Array trainingData) epochs opts g =
           (Inl (if inputSize (hd (layers net)) \<noteq> len xs then NetworkInputSizeMismatch
                 else OutputLayerSizeMismatch),
            net\<lparr>isCompiled := True, trainingHistory := []\<rparr>, g)"
proof -
  from assms(1) obtain first rest where td: "trainingData = first # rest"
    by (cases trainingData) (auto simp: validateTrainingData_def)
  have c: "(if \<not> isCompiled net then compile net else (Inr (), net)) =
             (Inr (), net\<lparr>isCompiled := True\<rparr>)"
    using assms(2) by (simp add: compile_def isCompiled_update_True)
  have "prepareForTraining net trainingData =
          (Inl (if inputSize (hd (layers net)) \<noteq> len xs then NetworkInputSizeMismatch
                else OutputLayerSizeMismatch),
           net\<lparr>isCompiled := True, trainingHistory := []\<rparr>)"
    unfolding prepareForTraining_def c
    using assms(2,3,4,5) td by (auto simp: Let_def)
  with assms(1) show ?thesis by (simp add: train_def)
qed

text \<open>
  The failing input: \<^verbatim>\<open>train([{input: [1, 2], target: [0]}], 10)\<close> on a network of one input.
  On the network that one epoch of training left with a history of one entry, the call
  throws and the history is empty; on the zero network, which was not compiled, the call
  throws and the network is compiled.
\<close>

theorem train_mutates_before_architecture_check_witness:
  "trainingHistory trained_network = [Fin 0] \<and>
   train trained_network (Array two_inputs_data) 10 default_options half_generator =
     (Inl NetworkInputSizeMismatch,
      trained_network\<lparr>isCompiled := True, trainingHistory := []\<rparr>, half_generator) \<and>
   trainingHistory (fst (snd (train trained_network (Array two_inputs_data) 10 default_options
      half_generator))) = [] \<and>
   \<not> isCompiled zero_network \<and>
   train zero_network (Array two_inputs_data) 10 default_options half_generator =
     (Inl NetworkInputSizeMismatch,
      zero_network\<lparr>isCompiled := True, trainingHistory := []\<rparr>, half_generator) \<and>
   isCompiled (fst (snd (train zero_network (Array two_inputs_data) 10 default_options
      half_generator)))"
proof -
  have v: "validateTrainingData (Array two_inputs_data) = None"
    by (simp add: validateTrainingData_def two_inputs_data_def)
  have d: "input (hd two_inputs_data) = Array [Fin 1, Fin 2]"
    "target (hd two_inputs_data) = Array [Fin 0]"
    by (simp_all add: two_inputs_data_def)
  have t: "layers trained_network = [zero_layer\<lparr>neurons :=
             [zero_neuron\<lparr>lastInputs := Some [Fin 1], lastOutput := Some (Fin 0)\<rparr>],
             outputs := [Fin 0]\<rparr>]"
    "trainingHistory trained_network = [Fin 0]"
    by (simp_all add: trained_network_def eval_defs train_loop.simps zero_network_def
        zero_layer_def zero_neuron_def fitted_data_def default_options_def)
  have z: "layers zero_network = [zero_layer]" "\<not> isCompiled zero_network"
    by (simp_all add: zero_network_def)
  have s: "inputSize zero_layer = Fin 1" "len [Fin 1, Fin 2] = Fin 2"
    by (simp_all add: zero_layer_def len_def)
  from train_mutates_before_architecture_check[OF v _ d, of trained_network 10 default_options
      half_generator] t(1) s
  have 1: "train trained_network (Array two_inputs_data) 10 default_options half_generator =
     (Inl NetworkInputSizeMismatch,
      trained_network\<lparr>isCompiled := True, trainingHistory := []\<rparr>, half_generator)"
    by simp
  from train_mutates_before_architecture_check[OF v _ d, of zero_network 10 default_options
      half_generator] z(1) s
  have 2: "train zero_network (Array two_inputs_data) 10 default_options half_generator =
     (Inl NetworkInputSizeMismatch,
      zero_network\<lparr>isCompiled := True, trainingHistory := []\<rparr>, half_generator)"
    by simp
  from 1 2 t(2) z(2) show ?thesis by simp
qed

lemma validate_sizes_append:
  "validate_sizes (xs @ ys) a b =
     (case validate_sizes xs a b of None \<Rightarrow> validate_sizes ys a b | Some e \<Rightarrow> Some e)"
  by (induction xs) (auto split: js_array.splits)

lemma validateTrainingData_Cons:
  "validateTrainingData (Array (first # rest)) = None \<Longrightarrow>
     \<exists>xs ts. input first = Array xs \<and> target first = Array ts \<and>
       validate_sizes (first # rest) (length xs) (length ts) = None"
  unfolding validateTrainingData_def
  by (simp del: validate_sizes.simps split: prod.splits js_array.splits)

text \<open>
  C4, where the code departs from it: \<^verbatim>\<open>validateTrainingData\<close> tests only the first example
  for its fields. When an example after a valid beginning of the data has no \<^verbatim>\<open>input\<close>, or
  has an \<^verbatim>\<open>input\<close> of the right length and no \<^verbatim>\<open>target\<close>, the call does not throw 'Each example
  must contain input and target fields': reading \<^verbatim>\<open>.length\<close> of the missing field raises a
  TypeError. The network and the generator are not touched.
\<close>

theorem train_later_example_without_field:
  assumes "validateTrainingData (Array valid) = None"
    and "input ex = Undefined \<or>
         (\<exists>xs ys. input ex = Array xs \<and> input (hd valid) = Array ys \<and> length xs = length ys \<and>
            target ex = Undefined)"
  shows "validateTrainingData (Array (valid @ ex # rest)) = Some TypeError \<and>
         train net (Array (valid @ ex # rest)) epochs opts g = (Inl TypeError, net, g)"
proof -
  from assms(1) obtain first more where v: "valid = first # more"
    by (cases valid) (auto simp: validateTrainingData_def)
  from validateTrainingData_Cons[OF assms(1)[unfolded v]]
  obtain xs ts where f: "input first = Array xs" "target first = Array ts"
    and ok: "validate_sizes (first # more) (length xs) (length ts) = None"
    by blast
  have "validate_sizes (ex # rest) (length xs) (length ts) = Some TypeError"
    using assms(2) f v by auto
  then have "validate_sizes ((first # more) @ ex # rest) (length xs) (length ts) = Some TypeError"
    using ok by (simp only: validate_sizes_append) simp
  then have "validateTrainingData (Array (valid @ ex # rest)) = Some TypeError"
    using f v by (simp add: validateTrainingData_def del: validate_sizes.simps)
  then show ?thesis by (simp add: train_def)
qed

text \<open>The failing input: a valid first example, and a second example without \<^verbatim>\<open>input\<close>.\<close>

theorem train_later_example_without_field_witness:
  "validateTrainingData (Array fitted_data) = None \<and>
   second_without_input = fitted_data @ [\<lparr>input = Undefined, target = Array [Fin 0]\<rparr>] \<and>
   validateTrainingData (Array second_without_input) = Some TypeError \<and>
   train zero_network (Array second_without_input) 10 default_options half_generator =
     (Inl TypeError, zero_network, half_generator)"
proof -
  have v: "validateTrainingData (Array fitted_data) = None"
    by (simp add: validateTrainingData_def fitted_data_def)
  have s: "second_without_input = fitted_data @ \<lparr>input = Undefined, target = Array [Fin 0]\<rparr> # []"
    by (simp add: second_without_input_def fitted_data_def)
  from train_later_example_without_field[OF v, of "\<lparr>input = Undefined, target = Array [Fin 0]\<rparr>" "[]"
      zero_network 10 default_options half_generator] v s
  show ?thesis by simp
qed

text \<open>
  What holds of C4 on the code: every malformed data set of the claim makes
  \<^verbatim>\<open>validateTrainingData\<close> throw, and \<^verbatim>\<open>train\<close> rethrows with the network and the generator
  untouched.
\<close>

lemma validate_sizes_None:
  "validate_sizes xs a b = None \<longleftrightarrow>
     (\<forall>ex \<in> set xs. \<exists>is ts. input ex = Array is \<and> target ex = Array ts \<and>
        length is = a \<and> length ts = b)"
  by (induction xs) (auto split: js_array.splits)

lemma validateTrainingData_None:
  "validateTrainingData d = None \<Longrightarrow> \<exists>td a b. d = Array td \<and> validate_sizes td a b = None"
  unfolding validateTrainingData_def
  by (cases d; simp del: validate_sizes.simps split: list.splits prod.splits js_array.splits) blast

lemma train_rejects_malformed_data:
  assumes "trainingData = Undefined \<or> trainingData = Array [] \<or>
     (\<exists>td. trainingData = Array td \<and>
        ((\<exists>ex \<in> set td. input ex = Undefined \<or> target ex = Undefined) \<or>
         (\<exists>ex1 \<in> set td. \<exists>ex2 \<in> set td. \<exists>xs1 xs2. input ex1 = Array xs1 \<and> input ex2 = Array xs2 \<and>
            length xs1 \<noteq> length xs2) \<or>
         (\<exists>ex1 \<in> set td. \<exists>ex2 \<in> set td. \<exists>ts1 ts2. target ex1 = Array ts1 \<and> target ex2 = Array ts2 \<and>
            length ts1 \<noteq> length ts2)))"
  shows "\<exists>e. validateTrainingData trainingData = Some e \<and>
           train net trainingData epochs opts g = (Inl e, net, g)"
proof -
  have "validateTrainingData trainingData \<noteq> None"
  proof
    assume n: "validateTrainingData trainingData = None"
    from validateTrainingData_None[OF n] obtain td a b where td: "trainingData = Array td"
      and v: "validate_sizes td a b = None"
      by blast
    from n td have ne: "td \<noteq> []" by (auto simp: validateTrainingData_def)
    from v[unfolded validate_sizes_None]
    have all: "\<forall>ex \<in> set td. \<exists>is ts'. input ex = Array is \<and> target ex = Array ts' \<and>
        length is = a \<and> length ts' = b" .
    from assms[unfolded td] ne have
      "(\<exists>ex \<in> set td. input ex = Undefined \<or> target ex = Undefined) \<or>
       (\<exists>ex1 \<in> set td. \<exists>ex2 \<in> set td. \<exists>xs1 xs2. input ex1 = Array xs1 \<and> input ex2 = Array xs2 \<and>
          length xs1 \<noteq> length xs2) \<or>
       (\<exists>ex1 \<in> set td. \<exists>ex2 \<in> set td. \<exists>ts1 ts2. target ex1 = Array ts1 \<and> target ex2 = Array ts2 \<and>
          length ts1 \<noteq> length ts2)"
      by simp
    with all show False
      by (elim disjE bexE exE conjE) (fastforce, fastforce, (metis js_array.inject)+)
  qed
  then show ?thesis by (auto simp: train_def)
qed

end
